theory Spec2Isabelle
  imports Main "HOL-Library.Word"
begin

unbundle bit_operations_syntax

section \<open>Data model of the 6502 core (cpu.cpp)\<close>

type_synonym u8 = "8 word"
type_synonym u16 = "16 word"
type_synonym u64 = "64 word"

text \<open>
  The class \<open>Bus\<close> (bus.h) is not part of the sources at hand; cpu.cpp only calls
  \<open>_bus->Read(address)\<close> and \<open>_bus->Write(address, data)\<close>. The bus is therefore a
  parameter of every function below: a state type \<open>'b\<close> and the two operations. A read
  may change the bus state (the C++ method is called through a non-const pointer).
\<close>

record 'b Bus =
  bus_Read :: "'b \<Rightarrow> u16 \<Rightarrow> u8 \<times> 'b"
  bus_Write :: "'b \<Rightarrow> u16 \<Rightarrow> u8 \<Rightarrow> 'b"

text \<open>
  The members of class \<open>CPU\<close> that cpu.cpp uses: \<open>_a\<close>, \<open>_x\<close>, \<open>_y\<close>, \<open>_s\<close>, \<open>_p\<close> (u8),
  \<open>_pc\<close> (u16), \<open>_cycles\<close> (u64), \<open>_currentPageCrossPenalty\<close> (bool). The field \<open>bus\<close> is
  the state of the object behind the pointer \<open>_bus\<close>, and \<open>cerr\<close> is the text written to
  \<open>std::cerr\<close> so far.
\<close>

record 'b CPU =
  reg_a :: u8
  reg_x :: u8
  reg_y :: u8
  reg_s :: u8
  reg_p :: u8
  reg_pc :: u16
  reg_cycles :: u64
  currentPageCrossPenalty :: bool
  bus :: 'b
  cerr :: string

text \<open>
  Modelled from the spec: the enumeration \<open>Status\<close> of cpu.h (not in the sources), with
  the bit layout of section 2 of the specification, which is also the layout the test
  \<open>StatusFlags\<close> of cpu_test.cpp uses.
\<close>

definition Status_Carry :: u8 where "Status_Carry = 0x01"
definition Status_Zero :: u8 where "Status_Zero = 0x02"
definition Status_InterruptDisable :: u8 where "Status_InterruptDisable = 0x04"
definition Status_Decimal :: u8 where "Status_Decimal = 0x08"
definition Status_Break :: u8 where "Status_Break = 0x10"
definition Status_Unused :: u8 where "Status_Unused = 0x20"
definition Status_Overflow :: u8 where "Status_Overflow = 0x40"
definition Status_Negative :: u8 where "Status_Negative = 0x80"

subsection \<open>Setters\<close>

text \<open>The getters return the fields and are the record selectors.\<close>

definition SetAccumulator :: "u8 \<Rightarrow> 'b CPU \<Rightarrow> 'b CPU" where
  "SetAccumulator v c = c\<lparr>reg_a := v\<rparr>"

definition SetXRegister :: "u8 \<Rightarrow> 'b CPU \<Rightarrow> 'b CPU" where
  "SetXRegister v c = c\<lparr>reg_x := v\<rparr>"

definition SetYRegister :: "u8 \<Rightarrow> 'b CPU \<Rightarrow> 'b CPU" where
  "SetYRegister v c = c\<lparr>reg_y := v\<rparr>"

definition SetStatusRegister :: "u8 \<Rightarrow> 'b CPU \<Rightarrow> 'b CPU" where
  "SetStatusRegister v c = c\<lparr>reg_p := v\<rparr>"

definition SetProgramCounter :: "u16 \<Rightarrow> 'b CPU \<Rightarrow> 'b CPU" where
  "SetProgramCounter v c = c\<lparr>reg_pc := v\<rparr>"

definition SetStackPointer :: "u8 \<Rightarrow> 'b CPU \<Rightarrow> 'b CPU" where
  "SetStackPointer v c = c\<lparr>reg_s := v\<rparr>"

definition SetCycles :: "u64 \<Rightarrow> 'b CPU \<Rightarrow> 'b CPU" where
  "SetCycles v c = c\<lparr>reg_cycles := v\<rparr>"

subsection \<open>Bus access\<close>

definition Read :: "'b Bus \<Rightarrow> u16 \<Rightarrow> 'b CPU \<Rightarrow> u8 \<times> 'b CPU" where
  "Read B address c =
     (let (v, b') = bus_Read B (bus c) address in (v, c\<lparr>bus := b'\<rparr>))"

definition Write :: "'b Bus \<Rightarrow> u16 \<Rightarrow> u8 \<Rightarrow> 'b CPU \<Rightarrow> 'b CPU" where
  "Write B address data c = c\<lparr>bus := bus_Write B (bus c) address data\<rparr>"

text \<open>\<open>Read( _pc++ )\<close>: the old program counter is the argument, the increment is done
  before the call.\<close>

definition Fetch :: "'b Bus \<Rightarrow> 'b CPU \<Rightarrow> u8 \<times> 'b CPU" where
  "Fetch B c = Read B (reg_pc c) (c\<lparr>reg_pc := reg_pc c + 1\<rparr>)"

subsection \<open>Status flag helpers\<close>

definition SetFlags :: "u8 \<Rightarrow> 'b CPU \<Rightarrow> 'b CPU" where
  "SetFlags flag c = c\<lparr>reg_p := reg_p c OR flag\<rparr>"

definition ClearFlags :: "u8 \<Rightarrow> 'b CPU \<Rightarrow> 'b CPU" where
  "ClearFlags flag c = c\<lparr>reg_p := reg_p c AND NOT flag\<rparr>"

definition IsFlagSet :: "u8 \<Rightarrow> 'b CPU \<Rightarrow> bool" where
  "IsFlagSet flag c \<longleftrightarrow> (reg_p c AND flag) = flag"

definition SetZeroAndNegativeFlags :: "u8 \<Rightarrow> 'b CPU \<Rightarrow> 'b CPU" where
  "SetZeroAndNegativeFlags v c =
     (let c1 = ClearFlags (Status_Zero OR Status_Negative) c;
          c2 = (if v = 0 then SetFlags Status_Zero c1 else c1);
          c3 = (if (v AND 0x80) \<noteq> 0 then SetFlags Status_Negative c2 else c2)
      in c3)"

section \<open>Addressing modes\<close>

text \<open>
  Each mode returns the effective address together with the new state. The C++
  expressions are evaluated in \<open>int\<close> and converted to \<open>u16\<close>; all intermediate values
  are below \<open>2^17\<close>, so 16-bit words with wrap-around give the same results.
\<close>

text \<open>
  Modelled from the spec: \<open>CPU::IMP\<close>, which the constructor stores in the table for
  INX, INY, DEX and DEY but which is not defined in cpu.cpp. According to the table of
  section 4.3 of the specification it reads no bytes and produces an address that the
  handler ignores; that address is taken to be 0 here.
\<close>

definition IMP :: "'b Bus \<Rightarrow> 'b CPU \<Rightarrow> u16 \<times> 'b CPU" where
  "IMP B c = (0, c)"

definition IMM :: "'b Bus \<Rightarrow> 'b CPU \<Rightarrow> u16 \<times> 'b CPU" where
  "IMM B c = (reg_pc c, c\<lparr>reg_pc := reg_pc c + 1\<rparr>)"

definition ZPG :: "'b Bus \<Rightarrow> 'b CPU \<Rightarrow> u16 \<times> 'b CPU" where
  "ZPG B c =
     (let (v, c1) = Read B (reg_pc c) (c\<lparr>reg_pc := reg_pc c + 1\<rparr>)
      in (ucast v AND 0x00FF, c1))"

definition ZPGX :: "'b Bus \<Rightarrow> 'b CPU \<Rightarrow> u16 \<times> 'b CPU" where
  "ZPGX B c =
     (let (v, c1) = Read B (reg_pc c) (c\<lparr>reg_pc := reg_pc c + 1\<rparr>)
      in ((ucast v + ucast (reg_x c1)) AND 0x00FF, c1))"

definition ZPGY :: "'b Bus \<Rightarrow> 'b CPU \<Rightarrow> u16 \<times> 'b CPU" where
  "ZPGY B c =
     (let (v, c1) = Read B (reg_pc c) (c\<lparr>reg_pc := reg_pc c + 1\<rparr>)
      in ((ucast v + ucast (reg_y c1)) AND 0x00FF, c1))"

definition ABS :: "'b Bus \<Rightarrow> 'b CPU \<Rightarrow> u16 \<times> 'b CPU" where
  "ABS B c =
     (let (l, c1) = Read B (reg_pc c) (c\<lparr>reg_pc := reg_pc c + 1\<rparr>);
          low = (ucast l :: u16);
          (h, c2) = Read B (reg_pc c1) (c1\<lparr>reg_pc := reg_pc c1 + 1\<rparr>);
          high = (ucast h :: u16)
      in (push_bit 8 high OR low, c2))"

definition ABSX :: "'b Bus \<Rightarrow> 'b CPU \<Rightarrow> u16 \<times> 'b CPU" where
  "ABSX B c =
     (let (l, c1) = Read B (reg_pc c) (c\<lparr>reg_pc := reg_pc c + 1\<rparr>);
          low = (ucast l :: u16);
          (h, c2) = Read B (reg_pc c1) (c1\<lparr>reg_pc := reg_pc c1 + 1\<rparr>);
          high = (ucast h :: u16);
          address = push_bit 8 high OR low;
          final_address = address + ucast (reg_x c2);
          c3 = (if currentPageCrossPenalty c2 \<and>
                   (final_address AND 0xFF00) \<noteq> (address AND 0xFF00)
                then c2\<lparr>reg_cycles := reg_cycles c2 + 1\<rparr> else c2)
      in (final_address, c3))"

definition ABSY :: "'b Bus \<Rightarrow> 'b CPU \<Rightarrow> u16 \<times> 'b CPU" where
  "ABSY B c =
     (let (l, c1) = Read B (reg_pc c) (c\<lparr>reg_pc := reg_pc c + 1\<rparr>);
          low = (ucast l :: u16);
          (h, c2) = Read B (reg_pc c1) (c1\<lparr>reg_pc := reg_pc c1 + 1\<rparr>);
          high = (ucast h :: u16);
          address = push_bit 8 high OR low;
          final_address = address + ucast (reg_y c2);
          c3 = (if currentPageCrossPenalty c2 \<and>
                   (final_address AND 0xFF00) \<noteq> (address AND 0xFF00)
                then c2\<lparr>reg_cycles := reg_cycles c2 + 1\<rparr> else c2)
      in (final_address, c3))"

definition IND :: "'b Bus \<Rightarrow> 'b CPU \<Rightarrow> u16 \<times> 'b CPU" where
  "IND B c =
     (let (l, c1) = Read B (reg_pc c) (c\<lparr>reg_pc := reg_pc c + 1\<rparr>);
          ptr_low = (ucast l :: u16);
          (h, c2) = Read B (reg_pc c1) (c1\<lparr>reg_pc := reg_pc c1 + 1\<rparr>);
          ptr_high = (ucast h :: u16);
          ptr = push_bit 8 ptr_high OR ptr_low;
          (address_low, c3) = Read B ptr c2;
          (address_high, c4) =
             (if ptr_low = 0xFF then Read B (ptr AND 0xFF00) c3
              else Read B (ptr + 1) c3)
      in (push_bit 8 (ucast address_high) OR ucast address_low, c4))"

definition INDX :: "'b Bus \<Rightarrow> 'b CPU \<Rightarrow> u16 \<times> 'b CPU" where
  "INDX B c =
     (let (v, c1) = Read B (reg_pc c) (c\<lparr>reg_pc := reg_pc c + 1\<rparr>);
          zero_page_address = (ucast (((ucast v :: u16) + ucast (reg_x c1)) AND 0x00FF) :: u8);
          (l, c2) = Read B (ucast zero_page_address) c1;
          ptr_low = (ucast l :: u16);
          (h, c3) = Read B (((ucast zero_page_address :: u16) + 1) AND 0x00FF) c2;
          ptr_high = (ucast h :: u16)
      in (push_bit 8 ptr_high OR ptr_low, c3))"

definition INDY :: "'b Bus \<Rightarrow> 'b CPU \<Rightarrow> u16 \<times> 'b CPU" where
  "INDY B c =
     (let (v, c1) = Read B (reg_pc c) (c\<lparr>reg_pc := reg_pc c + 1\<rparr>);
          zero_page_address = (ucast v :: u16);
          (l, c2) = Read B zero_page_address c1;
          ptr_low = (ucast l :: u16);
          (h, c3) = Read B ((zero_page_address + 1) AND 0x00FF) c2;
          ptr_high = (ucast h :: u16);
          address = (push_bit 8 ptr_high OR ptr_low) + ucast (reg_y c3);
          c4 = (if currentPageCrossPenalty c3 \<and>
                   (address AND 0xFF00) \<noteq> push_bit 8 ptr_high
                then c3\<lparr>reg_cycles := reg_cycles c3 + 1\<rparr> else c3)
      in (address, c4))"

text \<open>\<open>static_cast<s8>\<close> followed by the promotion to \<open>int\<close> is the sign extension
  \<open>scast\<close>; the sum is converted back to \<open>u16\<close>, that is, taken modulo \<open>2^16\<close>.\<close>

definition REL :: "'b Bus \<Rightarrow> 'b CPU \<Rightarrow> u16 \<times> 'b CPU" where
  "REL B c =
     (let (v, c1) = Read B (reg_pc c) c;
          offset = (scast v :: u16);
          address = reg_pc c1 + offset;
          c2 = c1\<lparr>reg_pc := reg_pc c1 + 1\<rparr>
      in (address, c2))"

section \<open>Instructions\<close>

text \<open>\<open>LoadRegister\<close> takes the register by reference; the model takes the field
  update that writes it.\<close>

definition LoadRegister ::
  "'b Bus \<Rightarrow> u16 \<Rightarrow> (u8 \<Rightarrow> 'b CPU \<Rightarrow> 'b CPU) \<Rightarrow> 'b CPU \<Rightarrow> 'b CPU" where
  "LoadRegister B address set_reg c =
     (let (v, c1) = Read B address c;
          c2 = set_reg v c1
      in SetZeroAndNegativeFlags v c2)"

definition StoreRegister :: "'b Bus \<Rightarrow> u16 \<Rightarrow> u8 \<Rightarrow> 'b CPU \<Rightarrow> 'b CPU" where
  "StoreRegister B address reg c = Write B address reg c"

definition LDA :: "'b Bus \<Rightarrow> u16 \<Rightarrow> 'b CPU \<Rightarrow> 'b CPU" where
  "LDA B address c = LoadRegister B address (\<lambda>v c. c\<lparr>reg_a := v\<rparr>) c"

definition LDX :: "'b Bus \<Rightarrow> u16 \<Rightarrow> 'b CPU \<Rightarrow> 'b CPU" where
  "LDX B address c = LoadRegister B address (\<lambda>v c. c\<lparr>reg_x := v\<rparr>) c"

definition LDY :: "'b Bus \<Rightarrow> u16 \<Rightarrow> 'b CPU \<Rightarrow> 'b CPU" where
  "LDY B address c = LoadRegister B address (\<lambda>v c. c\<lparr>reg_y := v\<rparr>) c"

definition STA :: "'b Bus \<Rightarrow> u16 \<Rightarrow> 'b CPU \<Rightarrow> 'b CPU" where
  "STA B address c = StoreRegister B address (reg_a c) c"

definition STX :: "'b Bus \<Rightarrow> u16 \<Rightarrow> 'b CPU \<Rightarrow> 'b CPU" where
  "STX B address c = StoreRegister B address (reg_x c) c"

definition STY :: "'b Bus \<Rightarrow> u16 \<Rightarrow> 'b CPU \<Rightarrow> 'b CPU" where
  "STY B address c = StoreRegister B address (reg_y c) c"

text \<open>The conditional expressions \<open>cond ? SetFlags(f) : ClearFlags(f)\<close>.\<close>

definition set_or_clear :: "bool \<Rightarrow> u8 \<Rightarrow> 'b CPU \<Rightarrow> 'b CPU" where
  "set_or_clear cond flag c = (if cond then SetFlags flag c else ClearFlags flag c)"

definition ADC :: "'b Bus \<Rightarrow> u16 \<Rightarrow> 'b CPU \<Rightarrow> 'b CPU" where
  "ADC B address c =
     (let (val, c1) = Read B address c;
          carry = (if IsFlagSet Status_Carry c1 then 1 else 0 :: u8);
          sum = (ucast (reg_a c1) + ucast val + ucast carry :: u16);
          c2 = set_or_clear (sum > 0xFF) Status_Carry c1;
          c3 = set_or_clear ((sum AND 0xFF) = 0) Status_Zero c2;
          accumulator_sign_bit = reg_a c3 AND 0x80;
          value_sign_bit = val AND 0x80;
          sum_sign_bit = (ucast (sum AND 0x80) :: u8);
          c4 = set_or_clear (accumulator_sign_bit = value_sign_bit \<and>
                             accumulator_sign_bit \<noteq> sum_sign_bit) Status_Overflow c3;
          c5 = set_or_clear ((sum AND 0x80) \<noteq> 0) Status_Negative c4
      in c5\<lparr>reg_a := ucast (sum AND 0xFF)\<rparr>)"

definition SBC :: "'b Bus \<Rightarrow> u16 \<Rightarrow> 'b CPU \<Rightarrow> 'b CPU" where
  "SBC B address c =
     (let (val, c1) = Read B address c;
          carry = (if IsFlagSet Status_Carry c1 then 0 else 1 :: u8);
          diff = (ucast (reg_a c1) - ucast val - ucast carry :: u16);
          c2 = set_or_clear (diff < 0x100) Status_Carry c1;
          c3 = set_or_clear ((diff AND 0xFF) = 0) Status_Zero c2;
          accumulator_sign_bit = reg_a c3 AND 0x80;
          value_sign_bit = val AND 0x80;
          diff_sign_bit = (ucast (diff AND 0x80) :: u8);
          c4 = set_or_clear (accumulator_sign_bit \<noteq> value_sign_bit \<and>
                             accumulator_sign_bit \<noteq> diff_sign_bit) Status_Overflow c3;
          c5 = set_or_clear ((diff AND 0x80) \<noteq> 0) Status_Negative c4
      in c5\<lparr>reg_a := ucast (diff AND 0xFF)\<rparr>)"

definition INC :: "'b Bus \<Rightarrow> u16 \<Rightarrow> 'b CPU \<Rightarrow> 'b CPU" where
  "INC B address c =
     (let (val, c1) = Read B address c;
          result = val + 1;
          c2 = SetZeroAndNegativeFlags result c1
      in Write B address result c2)"

definition INX :: "'b Bus \<Rightarrow> u16 \<Rightarrow> 'b CPU \<Rightarrow> 'b CPU" where
  "INX B address c =
     (let c1 = c\<lparr>reg_x := reg_x c + 1\<rparr> in SetZeroAndNegativeFlags (reg_x c1) c1)"

definition INY :: "'b Bus \<Rightarrow> u16 \<Rightarrow> 'b CPU \<Rightarrow> 'b CPU" where
  "INY B address c =
     (let c1 = c\<lparr>reg_y := reg_y c + 1\<rparr> in SetZeroAndNegativeFlags (reg_y c1) c1)"

definition DEC :: "'b Bus \<Rightarrow> u16 \<Rightarrow> 'b CPU \<Rightarrow> 'b CPU" where
  "DEC B address c =
     (let (val, c1) = Read B address c;
          result = val - 1;
          c2 = SetZeroAndNegativeFlags result c1
      in Write B address result c2)"

definition DEX :: "'b Bus \<Rightarrow> u16 \<Rightarrow> 'b CPU \<Rightarrow> 'b CPU" where
  "DEX B address c =
     (let c1 = c\<lparr>reg_x := reg_x c - 1\<rparr> in SetZeroAndNegativeFlags (reg_x c1) c1)"

definition DEY :: "'b Bus \<Rightarrow> u16 \<Rightarrow> 'b CPU \<Rightarrow> 'b CPU" where
  "DEY B address c =
     (let c1 = c\<lparr>reg_y := reg_y c - 1\<rparr> in SetZeroAndNegativeFlags (reg_y c1) c1)"

section \<open>The decode table\<close>

text \<open>Pointers to the member functions, as the table stores them.\<close>

datatype instruction_ptr =
    PtrLDA | PtrLDX | PtrLDY | PtrSTA | PtrSTX | PtrSTY | PtrADC | PtrSBC
  | PtrINC | PtrDEC | PtrINX | PtrINY | PtrDEX | PtrDEY

datatype addressing_ptr =
    PtrIMP | PtrIMM | PtrZPG | PtrZPGX | PtrZPGY | PtrABS | PtrABSX | PtrABSY
  | PtrIND | PtrINDX | PtrINDY | PtrREL

text \<open>
  Modelled from the spec: the struct \<open>InstructionData\<close> of cpu.h (not in the sources).
  The fields are those cpu.cpp reads (\<open>instructionMethod\<close>, \<open>addressingModeMethod\<close>,
  \<open>cycles\<close>, \<open>pageCrossPenalty\<close>) after the label; a null pointer is \<open>None\<close>. Following
  section 3 of the specification the last field defaults to true when the initialiser
  gives four values only.
\<close>

record InstructionData =
  name :: string
  instructionMethod :: "instruction_ptr option"
  addressingModeMethod :: "addressing_ptr option"
  cycles :: nat
  pageCrossPenalty :: bool

definition InstructionData5 ::
  "string \<Rightarrow> instruction_ptr \<Rightarrow> addressing_ptr \<Rightarrow> nat \<Rightarrow> bool \<Rightarrow> InstructionData" where
  "InstructionData5 n i m cyc pen =
     \<lparr>name = n, instructionMethod = Some i, addressingModeMethod = Some m,
      cycles = cyc, pageCrossPenalty = pen\<rparr>"

definition InstructionData4 ::
  "string \<Rightarrow> instruction_ptr \<Rightarrow> addressing_ptr \<Rightarrow> nat \<Rightarrow> InstructionData" where
  "InstructionData4 n i m cyc = InstructionData5 n i m cyc True"

text \<open>The value-initialised entry of \<open>_opcodeTable{}\<close>.\<close>

definition null_entry :: InstructionData where
  "null_entry =
     \<lparr>name = [], instructionMethod = None, addressingModeMethod = None,
      cycles = 0, pageCrossPenalty = True\<rparr>"

text \<open>The constructor \<open>CPU::CPU\<close>: the assignments \<open>_opcodeTable[opcode] = entry\<close>
  in source order, carried out one after the other on the value-initialised array.\<close>

definition opcode_assignments :: "(u8 \<times> InstructionData) list" where
  "opcode_assignments = [
      (0xA9, InstructionData4 ''LDA_Immediate'' PtrLDA PtrIMM 2),
      (0xA5, InstructionData4 ''LDA_ZeroPage'' PtrLDA PtrZPG 3),
      (0xB5, InstructionData4 ''LDA_ZeroPageX'' PtrLDA PtrZPGX 4),
      (0xAD, InstructionData4 ''LDA_Absolute'' PtrLDA PtrABS 4),
      (0xBD, InstructionData4 ''LDA_AbsoluteX'' PtrLDA PtrABSX 4),
      (0xB9, InstructionData4 ''LDA_AbsoluteY'' PtrLDA PtrABSY 4),
      (0xA1, InstructionData4 ''LDA_IndirectX'' PtrLDA PtrINDX 6),
      (0xB1, InstructionData4 ''LDA_IndirectY'' PtrLDA PtrINDY 5),
      (0xA2, InstructionData4 ''LDX_Immediate'' PtrLDX PtrIMM 2),
      (0xA6, InstructionData4 ''LDX_ZeroPage'' PtrLDX PtrZPG 3),
      (0xB6, InstructionData4 ''LDX_ZeroPageY'' PtrLDX PtrZPGY 4),
      (0xAE, InstructionData4 ''LDX_Absolute'' PtrLDX PtrABS 4),
      (0xBE, InstructionData4 ''LDX_AbsoluteY'' PtrLDX PtrABSY 4),
      (0xA0, InstructionData4 ''LDY_Immediate'' PtrLDY PtrIMM 2),
      (0xA4, InstructionData4 ''LDY_ZeroPage'' PtrLDY PtrZPG 3),
      (0xB4, InstructionData4 ''LDY_ZeroPageX'' PtrLDY PtrZPGX 4),
      (0xAC, InstructionData4 ''LDY_Absolute'' PtrLDY PtrABS 4),
      (0xBC, InstructionData4 ''LDY_AbsoluteX'' PtrLDY PtrABSX 4),
      (0x85, InstructionData4 ''STA_ZeroPage'' PtrSTA PtrZPG 3),
      (0x95, InstructionData4 ''STA_ZeroPageX'' PtrSTA PtrZPGX 4),
      (0x8D, InstructionData4 ''STA_Absolute'' PtrSTA PtrABS 4),
      (0x9D, InstructionData5 ''STA_AbsoluteX'' PtrSTA PtrABSX 5 False),
      (0x99, InstructionData5 ''STA_AbsoluteY'' PtrSTA PtrABSY 5 False),
      (0x81, InstructionData5 ''STA_IndirectX'' PtrSTA PtrINDX 6 False),
      (0x91, InstructionData5 ''STA_IndirectY'' PtrSTA PtrINDY 6 False),
      (0x86, InstructionData4 ''STX_ZeroPage'' PtrSTX PtrZPG 3),
      (0x96, InstructionData4 ''STX_ZeroPageY'' PtrSTX PtrZPGY 4),
      (0x8E, InstructionData4 ''STX_Absolute'' PtrSTX PtrABS 4),
      (0x84, InstructionData4 ''STY_ZeroPage'' PtrSTY PtrZPG 3),
      (0x94, InstructionData4 ''STY_ZeroPageX'' PtrSTY PtrZPGX 4),
      (0x8C, InstructionData4 ''STY_Absolute'' PtrSTY PtrABS 4),
      (0x69, InstructionData4 ''ADC_Immediate'' PtrADC PtrIMM 2),
      (0x65, InstructionData4 ''ADC_ZeroPage'' PtrADC PtrZPG 3),
      (0x75, InstructionData4 ''ADC_ZeroPageX'' PtrADC PtrZPGX 4),
      (0x6D, InstructionData4 ''ADC_Absolute'' PtrADC PtrABS 4),
      (0x7D, InstructionData4 ''ADC_AbsoluteX'' PtrADC PtrABSX 4),
      (0x79, InstructionData4 ''ADC_AbsoluteY'' PtrADC PtrABSY 4),
      (0x61, InstructionData4 ''ADC_IndirectX'' PtrADC PtrINDX 6),
      (0x71, InstructionData4 ''ADC_IndirectY'' PtrADC PtrINDY 5),
      (0xE9, InstructionData4 ''SBC_Immediate'' PtrSBC PtrIMM 2),
      (0xE5, InstructionData4 ''SBC_ZeroPage'' PtrSBC PtrZPG 3),
      (0xF5, InstructionData4 ''SBC_ZeroPageX'' PtrSBC PtrZPGX 4),
      (0xED, InstructionData4 ''SBC_Absolute'' PtrSBC PtrABS 4),
      (0xFD, InstructionData4 ''SBC_AbsoluteX'' PtrSBC PtrABSX 4),
      (0xF9, InstructionData4 ''SBC_AbsoluteY'' PtrSBC PtrABSY 4),
      (0xE1, InstructionData4 ''SBC_IndirectX'' PtrSBC PtrINDX 6),
      (0xF1, InstructionData4 ''SBC_IndirectY'' PtrSBC PtrINDY 5),
      (0xE6, InstructionData4 ''INC_ZeroPage'' PtrINC PtrZPG 5),
      (0xF6, InstructionData4 ''INC_ZeroPageX'' PtrINC PtrZPGX 6),
      (0xEE, InstructionData4 ''INC_Absolute'' PtrINC PtrABS 6),
      (0xFE, InstructionData5 ''INC_AbsoluteX'' PtrINC PtrABSX 7 False),
      (0xC6, InstructionData4 ''DEC_ZeroPage'' PtrDEC PtrZPG 5),
      (0xD6, InstructionData4 ''DEC_ZeroPageX'' PtrDEC PtrZPGX 6),
      (0xCE, InstructionData4 ''DEC_Absolute'' PtrDEC PtrABS 6),
      (0xDE, InstructionData5 ''DEC_AbsoluteX'' PtrDEC PtrABSX 7 False),
      (0xE8, InstructionData4 ''INX'' PtrINX PtrIMP 2),
      (0xC8, InstructionData4 ''INY'' PtrINY PtrIMP 2),
      (0xCA, InstructionData4 ''DEX'' PtrDEX PtrIMP 2),
      (0x88, InstructionData4 ''DEY'' PtrDEY PtrIMP 2)]"

definition opcodeTable :: "u8 \<Rightarrow> InstructionData" where
  "opcodeTable =
     foldl (\<lambda>table (opcode, entry). table(opcode := entry)) (\<lambda>_. null_entry)
       opcode_assignments"

text \<open>The opcodes the constructor assigns, and the test Tick applies to an entry.\<close>

definition assigned_opcodes :: "u8 list" where
  "assigned_opcodes = map fst opcode_assignments"

definition implemented_opcode :: "u8 \<Rightarrow> bool" where
  "implemented_opcode opcode \<longleftrightarrow>
     instructionMethod (opcodeTable opcode) \<noteq> None \<and>
     addressingModeMethod (opcodeTable opcode) \<noteq> None"

definition mnemonic_count :: "instruction_ptr \<Rightarrow> nat" where
  "mnemonic_count i = card {opcode. instructionMethod (opcodeTable opcode) = Some i}"

section \<open>Tick and Reset\<close>

definition call_addressing_mode :: "addressing_ptr \<Rightarrow> 'b Bus \<Rightarrow> 'b CPU \<Rightarrow> u16 \<times> 'b CPU" where
  "call_addressing_mode m =
     (case m of PtrIMP \<Rightarrow> IMP | PtrIMM \<Rightarrow> IMM | PtrZPG \<Rightarrow> ZPG | PtrZPGX \<Rightarrow> ZPGX
      | PtrZPGY \<Rightarrow> ZPGY | PtrABS \<Rightarrow> ABS | PtrABSX \<Rightarrow> ABSX | PtrABSY \<Rightarrow> ABSY
      | PtrIND \<Rightarrow> IND | PtrINDX \<Rightarrow> INDX | PtrINDY \<Rightarrow> INDY | PtrREL \<Rightarrow> REL)"

definition call_instruction :: "instruction_ptr \<Rightarrow> 'b Bus \<Rightarrow> u16 \<Rightarrow> 'b CPU \<Rightarrow> 'b CPU" where
  "call_instruction i =
     (case i of PtrLDA \<Rightarrow> LDA | PtrLDX \<Rightarrow> LDX | PtrLDY \<Rightarrow> LDY | PtrSTA \<Rightarrow> STA
      | PtrSTX \<Rightarrow> STX | PtrSTY \<Rightarrow> STY | PtrADC \<Rightarrow> ADC | PtrSBC \<Rightarrow> SBC
      | PtrINC \<Rightarrow> INC | PtrDEC \<Rightarrow> DEC | PtrINX \<Rightarrow> INX | PtrINY \<Rightarrow> INY
      | PtrDEX \<Rightarrow> DEX | PtrDEY \<Rightarrow> DEY)"

text \<open>\<open>std::cerr << std::hex << static_cast<int>( opcode )\<close>: lower-case hexadecimal
  digits, no prefix, no leading zero.\<close>

definition hex_digit :: "u8 \<Rightarrow> char" where
  "hex_digit d = ''0123456789abcdef'' ! unat d"

definition hex :: "u8 \<Rightarrow> string" where
  "hex v = (if v < 0x10 then [hex_digit v]
            else [hex_digit (drop_bit 4 v), hex_digit (v AND 0x0F)])"

definition bad_opcode_message :: "u8 \<Rightarrow> string" where
  "bad_opcode_message opcode = ''Bad opcode: '' @ hex opcode @ [CHR 0x0A]"

definition Tick :: "'b Bus \<Rightarrow> 'b CPU \<Rightarrow> 'b CPU" where
  "Tick B c =
     (let (opcode, c1) = Fetch B c;
          instruction = opcodeTable opcode
      in case (instructionMethod instruction, addressingModeMethod instruction) of
           (Some instruction_handler, Some addressing_mode_handler) \<Rightarrow>
             (let c2 = c1\<lparr>currentPageCrossPenalty := pageCrossPenalty instruction\<rparr>;
                  (address, c3) = call_addressing_mode addressing_mode_handler B c2;
                  c4 = call_instruction instruction_handler B address c3
              in c4\<lparr>reg_cycles := reg_cycles c4 + of_nat (cycles instruction)\<rparr>)
         | _ \<Rightarrow> c1\<lparr>cerr := cerr c1 @ bad_opcode_message opcode\<rparr>)"

text \<open>C++ leaves the order of the two reads in \<open>Read( 0xFFFD ) << 8 | Read( 0xFFFC )\<close>
  unspecified; the model takes them in textual order.\<close>

definition Reset :: "'b Bus \<Rightarrow> 'b CPU \<Rightarrow> 'b CPU" where
  "Reset B c =
     (let c1 = c\<lparr>reg_a := 0x00, reg_x := 0x00, reg_y := 0x00, reg_s := 0xFD,
                 reg_p := 0x00 OR Status_Unused, reg_cycles := 0\<rparr>;
          (h, c2) = Read B 0xFFFD c1;
          (l, c3) = Read B 0xFFFC c2
      in c3\<lparr>reg_pc := push_bit 8 (ucast h) OR ucast l\<rparr>)"

section \<open>Notions the properties are stated with\<close>

text \<open>
  The page-crossing property speaks of the base address of the three indexed modes and
  of the index added to it. These definitions follow the words of the specification
  (section 4.3 and the glossary), not the code of the modes: the base of ABSX and ABSY
  is the little-endian word at PC; the base of INDY is the word stored in the zero page
  at the operand byte, the second byte taken from \<open>(operand + 1) & 0xFF\<close>. The bytes are
  read from the bus in the order the mode reads them.
\<close>

definition spec_page :: "u16 \<Rightarrow> u16" where
  "spec_page address = address AND 0xFF00"

definition spec_word_at_pc :: "'b Bus \<Rightarrow> 'b CPU \<Rightarrow> u16" where
  "spec_word_at_pc B c =
     (let (l, b1) = bus_Read B (bus c) (reg_pc c);
          (h, b2) = bus_Read B b1 (reg_pc c + 1)
      in push_bit 8 (ucast h) OR ucast l)"

definition spec_zero_page_pointer :: "'b Bus \<Rightarrow> 'b CPU \<Rightarrow> u16" where
  "spec_zero_page_pointer B c =
     (let (z, b1) = bus_Read B (bus c) (reg_pc c);
          (l, b2) = bus_Read B b1 (ucast z);
          (h, b3) = bus_Read B b2 ((ucast z + 1) AND 0x00FF)
      in push_bit 8 (ucast h) OR ucast l)"

definition spec_base_address :: "addressing_ptr \<Rightarrow> 'b Bus \<Rightarrow> 'b CPU \<Rightarrow> u16" where
  "spec_base_address m B c =
     (case m of PtrABSX \<Rightarrow> spec_word_at_pc B c
      | PtrABSY \<Rightarrow> spec_word_at_pc B c
      | PtrINDY \<Rightarrow> spec_zero_page_pointer B c
      | _ \<Rightarrow> fst (call_addressing_mode m B c))"

definition spec_index :: "addressing_ptr \<Rightarrow> 'b CPU \<Rightarrow> u8" where
  "spec_index m c =
     (case m of PtrABSX \<Rightarrow> reg_x c | PtrABSY \<Rightarrow> reg_y c | PtrINDY \<Rightarrow> reg_y c | _ \<Rightarrow> 0)"

text \<open>The status bits an instruction handler may change, as the frame property lists
  them: Zero and Negative for loads, increments and decrements, none for stores, and
  Carry, Zero, Overflow and Negative for ADC and SBC.\<close>

definition spec_flags_written :: "instruction_ptr \<Rightarrow> u8" where
  "spec_flags_written i =
     (case i of PtrSTA \<Rightarrow> 0 | PtrSTX \<Rightarrow> 0 | PtrSTY \<Rightarrow> 0
      | PtrADC \<Rightarrow> Status_Carry OR Status_Zero OR Status_Overflow OR Status_Negative
      | PtrSBC \<Rightarrow> Status_Carry OR Status_Zero OR Status_Overflow OR Status_Negative
      | _ \<Rightarrow> Status_Zero OR Status_Negative)"

text \<open>Writing one bit of the status register: bit \<open>k\<close> becomes \<open>b\<close>, the others stay.\<close>

definition spec_assign_bit :: "bool \<Rightarrow> nat \<Rightarrow> u8 \<Rightarrow> u8" where
  "spec_assign_bit b k p = (if b then p OR 2 ^ k else p AND NOT (2 ^ k))"

text \<open>The value of a lower-case hexadecimal digit, to read a diagnostic back.\<close>

definition digit_value :: "char \<Rightarrow> u8" where
  "digit_value ch = (if of_char ch < (0x3A::nat) then of_nat (of_char ch - 0x30)
                     else of_nat (of_char ch - 0x57))"

section \<open>A concrete bus for evaluation\<close>

text \<open>
  Modelled from the spec: the flat-memory mode of the bus that the test fixture uses
  (section 9: a single 64 KiB byte array), and a CPU over it with given register values,
  as the tests of cpu_test.cpp seed one. Reading has no effect on the array.
\<close>

definition flat_bus :: "(u16 \<Rightarrow> u8) Bus" where
  "flat_bus = \<lparr>bus_Read = (\<lambda>m address. (m address, m)),
               bus_Write = (\<lambda>m address data. m(address := data))\<rparr>"

definition ram_of :: "(u16 \<times> u8) list \<Rightarrow> u16 \<Rightarrow> u8" where
  "ram_of bytes address = (case map_of bytes address of Some v \<Rightarrow> v | None \<Rightarrow> 0)"

definition flat_cpu :: "u16 \<Rightarrow> u8 \<Rightarrow> u8 \<Rightarrow> u8 \<Rightarrow> u8 \<Rightarrow> (u16 \<times> u8) list \<Rightarrow> (u16 \<Rightarrow> u8) CPU" where
  "flat_cpu pc a x y p bytes =
     \<lparr>reg_a = a, reg_x = x, reg_y = y, reg_s = 0xFD, reg_p = p, reg_pc = pc,
      reg_cycles = 0, currentPageCrossPenalty = True, bus = ram_of bytes, cerr = []\<rparr>"

subsection \<open>Concrete states\<close>

text \<open>Scenario 5 of section 8 of the specification: LDA Absolute,X from base
  \<open>0x20F0\<close> with \<open>X = 0x20\<close>, which crosses into page \<open>0x21\<close>.\<close>

definition scenario_lda_absx_cross :: "(u16 \<Rightarrow> u8) CPU" where
  "scenario_lda_absx_cross =
     flat_cpu 0x8000 0x00 0x20 0x00 0x20
       [(0x8000, 0xBD), (0x8001, 0xF0), (0x8002, 0x20), (0x2110, 0x42)]"

text \<open>Scenario 6 of the specification: STA Absolute,X with the same base and index.\<close>

definition scenario_sta_absx_cross :: "(u16 \<Rightarrow> u8) CPU" where
  "scenario_sta_absx_cross =
     flat_cpu 0x8000 0x77 0x20 0x00 0x20 [(0x8000, 0x9D), (0x8001, 0xF0), (0x8002, 0x20)]"

text \<open>A state whose next opcode, \<open>0x02\<close>, has no entry in the table.\<close>

definition scenario_bad_opcode :: "(u16 \<Rightarrow> u8) CPU" where
  "scenario_bad_opcode = flat_cpu 0x8000 0x11 0x22 0x33 0x20 [(0x8000, 0x02), (0x8001, 0xA9)]"

text \<open>Scenario 3 of the specification, at the call of the handler: \<open>A = 0x7F\<close>, Carry
  clear, operand \<open>0x01\<close> at \<open>0x8001\<close>.\<close>

definition scenario_adc_overflow :: "(u16 \<Rightarrow> u8) CPU" where
  "scenario_adc_overflow = flat_cpu 0x8001 0x7F 0x00 0x00 0x20 [(0x8000, 0x69), (0x8001, 0x01)]"

text \<open>Scenario 4 of the specification, at the call of the handler: \<open>A = 0x01\<close>, Carry
  set, operand \<open>0x02\<close> at \<open>0x8001\<close>.\<close>

definition scenario_sbc_borrow :: "(u16 \<Rightarrow> u8) CPU" where
  "scenario_sbc_borrow = flat_cpu 0x8001 0x01 0x00 0x00 0x21 [(0x8000, 0xE9), (0x8001, 0x02)]"

text \<open>An indirect jump through the pointer \<open>0x02FF\<close>, with PC at the operand.\<close>

definition scenario_ind_wrap :: "(u16 \<Rightarrow> u8) CPU" where
  "scenario_ind_wrap = flat_cpu 0x8001 0x00 0x00 0x00 0x20
     [(0x8000, 0x6C), (0x8001, 0xFF), (0x8002, 0x02), (0x02FF, 0x34), (0x0200, 0x12),
      (0x0300, 0x56)]"

text \<open>A relative operand \<open>+5\<close> at \<open>0x8001\<close>, with PC at the operand.\<close>

definition scenario_rel_forward :: "(u16 \<Rightarrow> u8) CPU" where
  "scenario_rel_forward = flat_cpu 0x8001 0x00 0x00 0x00 0x20 [(0x8000, 0xD0), (0x8001, 0x05)]"

section \<open>Auxiliary facts\<close>

lemmas Status_defs = Status_Carry_def Status_Zero_def Status_InterruptDisable_def
  Status_Decimal_def Status_Break_def Status_Unused_def Status_Overflow_def
  Status_Negative_def

lemmas mode_defs = IMP_def IMM_def ZPG_def ZPGX_def ZPGY_def ABS_def ABSX_def ABSY_def
  IND_def INDX_def INDY_def REL_def

lemmas instr_defs = LDA_def LDX_def LDY_def STA_def STX_def STY_def ADC_def SBC_def
  INC_def DEC_def INX_def INY_def DEX_def DEY_def LoadRegister_def StoreRegister_def

lemma Read_eq:
  "Read B ad c = (fst (bus_Read B (bus c) ad), c\<lparr>bus := snd (bus_Read B (bus c) ad)\<rparr>)"
  by (simp add: Read_def split_def Let_def)

lemma Fetch_eq:
  "Fetch B c = (fst (bus_Read B (bus c) (reg_pc c)),
                c\<lparr>reg_pc := reg_pc c + 1, bus := snd (bus_Read B (bus c) (reg_pc c))\<rparr>)"
  by (simp add: Fetch_def Read_eq)

subsection \<open>Status bits outside a mask\<close>

lemma keep_or: "m AND f = 0 \<Longrightarrow> (p OR f) AND m = p AND (m::u8)"
  by (simp add: bit_eq_iff bit_simps) (metis (no_types) bit_and_iff bit_0_eq)

lemma keep_and_not: "m AND f = 0 \<Longrightarrow> (p AND NOT f) AND m = p AND (m::u8)"
  by (simp add: bit_eq_iff bit_simps) (metis (no_types) bit_and_iff bit_0_eq)

lemma and_or_zero: "m AND (f OR g) = 0 \<longleftrightarrow> m AND f = 0 \<and> m AND (g::u8) = 0"
  by (simp add: bit_eq_iff bit_simps) blast

lemma same_outside:
  "p' AND NOT w = p AND NOT w \<Longrightarrow> w AND k = 0 \<Longrightarrow> p' AND k = p AND (k::u8)"
  by (simp add: bit_eq_iff bit_simps) (metis (no_types) bit_and_iff bit_0_eq)

lemma SetFlags_keep: "m AND f = 0 \<Longrightarrow> reg_p (SetFlags f c) AND m = reg_p c AND m"
  by (simp add: SetFlags_def keep_or)

lemma ClearFlags_keep: "m AND f = 0 \<Longrightarrow> reg_p (ClearFlags f c) AND m = reg_p c AND m"
  by (simp add: ClearFlags_def keep_and_not)

lemma set_or_clear_keep:
  "m AND f = 0 \<Longrightarrow> reg_p (set_or_clear b f c) AND m = reg_p c AND m"
  by (simp add: set_or_clear_def SetFlags_keep ClearFlags_keep)

lemma SetZeroAndNegativeFlags_keep:
  "m AND (Status_Zero OR Status_Negative) = 0 \<Longrightarrow>
   reg_p (SetZeroAndNegativeFlags v c) AND m = reg_p c AND m"
  by (simp add: SetZeroAndNegativeFlags_def Let_def SetFlags_keep ClearFlags_keep and_or_zero)

lemma SetZeroAndNegativeFlags_eq:
  "SetZeroAndNegativeFlags v c = c\<lparr>reg_p :=
     (let p1 = reg_p c AND NOT (Status_Zero OR Status_Negative);
          p2 = (if v = 0 then p1 OR Status_Zero else p1)
      in if (v AND 0x80) \<noteq> 0 then p2 OR Status_Negative else p2)\<rparr>"
  by (simp add: SetZeroAndNegativeFlags_def SetFlags_def ClearFlags_def Let_def)

subsection \<open>What addressing modes and instruction handlers leave alone\<close>

lemma mode_frame:
  "reg_s (snd (call_addressing_mode m B c)) = reg_s c"
  "reg_p (snd (call_addressing_mode m B c)) = reg_p c"
  "reg_a (snd (call_addressing_mode m B c)) = reg_a c"
  "reg_x (snd (call_addressing_mode m B c)) = reg_x c"
  "reg_y (snd (call_addressing_mode m B c)) = reg_y c"
  "cerr (snd (call_addressing_mode m B c)) = cerr c"
  by (cases m; simp add: call_addressing_mode_def mode_defs Read_eq split_def Let_def)+

lemma instr_frame:
  "reg_s (call_instruction i B ad c) = reg_s c"
  "reg_pc (call_instruction i B ad c) = reg_pc c"
  "reg_cycles (call_instruction i B ad c) = reg_cycles c"
  "cerr (call_instruction i B ad c) = cerr c"
  by (cases i; simp add: call_instruction_def instr_defs Read_eq Write_def set_or_clear_def
        SetFlags_def ClearFlags_def SetZeroAndNegativeFlags_eq split_def Let_def)+

lemma instr_flags:
  "reg_p (call_instruction i B ad c) AND NOT (spec_flags_written i)
     = reg_p c AND NOT (spec_flags_written i)"
  by (cases i; simp add: call_instruction_def instr_defs Read_eq Write_def split_def Let_def
        spec_flags_written_def set_or_clear_keep SetZeroAndNegativeFlags_keep Status_defs)

lemma flags_written_disjoint:
  "spec_flags_written i AND (Status_InterruptDisable OR Status_Decimal OR Status_Break) = 0"
  by (cases i; simp add: spec_flags_written_def Status_defs)

lemma instr_keeps_IDB:
  "reg_p (call_instruction i B ad c)
       AND (Status_InterruptDisable OR Status_Decimal OR Status_Break)
     = reg_p c AND (Status_InterruptDisable OR Status_Decimal OR Status_Break)"
  by (rule same_outside [OF instr_flags flags_written_disjoint])

subsection \<open>Tick as a whole\<close>

lemma Tick_reg_s: "reg_s (Tick B c) = reg_s c"
  by (simp add: Tick_def split_def Let_def mode_frame instr_frame Fetch_eq split: option.split)

lemma Tick_keeps_IDB:
  "reg_p (Tick B c) AND (Status_InterruptDisable OR Status_Decimal OR Status_Break)
     = reg_p c AND (Status_InterruptDisable OR Status_Decimal OR Status_Break)"
  by (simp add: Tick_def split_def Let_def mode_frame instr_keeps_IDB Fetch_eq
        split: option.split)

subsection \<open>The decode table as a lookup\<close>

lemma foldl_upd_lookup:
  "foldl (\<lambda>t (k, e). t(k := e)) f l x = (case map_of (rev l) x of None \<Rightarrow> f x | Some e \<Rightarrow> e)"
  by (induction l arbitrary: f) (auto simp add: map_add_def split: option.splits)

lemma map_of_rev_distinct:
  assumes "distinct (map fst l)"
  shows "map_of (rev l) k = map_of l k"
proof (cases "map_of l k")
  case None
  then have "k \<notin> fst ` set (rev l)" by (simp add: map_of_eq_None_iff)
  then have "map_of (rev l) k = None" by (simp only: map_of_eq_None_iff not_False_eq_True)
  with None show ?thesis by simp
next
  case (Some e)
  then have "(k, e) \<in> set (rev l)" by (simp add: map_of_SomeD)
  moreover have "distinct (map fst (rev l))" using assms by (simp add: rev_map [symmetric])
  ultimately have "map_of (rev l) k = Some e" by (rule map_of_is_SomeI [rotated])
  with Some show ?thesis by simp
qed

lemma distinct_assigned: "distinct assigned_opcodes"
  by (simp add: assigned_opcodes_def opcode_assignments_def)

lemma length_assigned: "length assigned_opcodes = 59"
  by (simp add: assigned_opcodes_def opcode_assignments_def)

lemma opcodeTable_lookup:
  "opcodeTable op = (case map_of opcode_assignments op of None \<Rightarrow> null_entry | Some e \<Rightarrow> e)"
  using distinct_assigned
  by (simp add: opcodeTable_def foldl_upd_lookup assigned_opcodes_def map_of_rev_distinct)

lemma all_entries:
  "list_all (\<lambda>(k, e). instructionMethod e \<noteq> None \<and> addressingModeMethod e \<noteq> None
       \<and> 2 \<le> cycles e \<and> cycles e \<le> 7) opcode_assignments"
  by (simp add: opcode_assignments_def InstructionData4_def InstructionData5_def)

lemma opcodeTable_assigned:
  assumes "op \<in> set assigned_opcodes"
  shows "(op, opcodeTable op) \<in> set opcode_assignments"
proof -
  from assms obtain e where "(op, e) \<in> set opcode_assignments"
    by (auto simp add: assigned_opcodes_def)
  then have "map_of opcode_assignments op = Some e"
    using distinct_assigned by (simp add: assigned_opcodes_def)
  then show ?thesis using \<open>(op, e) \<in> set opcode_assignments\<close>
    by (simp add: opcodeTable_lookup)
qed

lemma opcodeTable_unassigned:
  assumes "op \<notin> set assigned_opcodes"
  shows "opcodeTable op = null_entry"
proof -
  have "map_of opcode_assignments op = None"
    using assms by (simp add: assigned_opcodes_def map_of_eq_None_iff)
  then show ?thesis by (simp add: opcodeTable_lookup)
qed

lemma instr_assigned:
  "instructionMethod (opcodeTable op) \<noteq> None \<longleftrightarrow> op \<in> set assigned_opcodes"
proof
  assume "instructionMethod (opcodeTable op) \<noteq> None"
  then show "op \<in> set assigned_opcodes"
    using opcodeTable_unassigned [of op] by (cases "op \<in> set assigned_opcodes") (auto simp add: null_entry_def)
next
  assume "op \<in> set assigned_opcodes"
  then have "(op, opcodeTable op) \<in> set opcode_assignments" by (rule opcodeTable_assigned)
  with all_entries show "instructionMethod (opcodeTable op) \<noteq> None"
    by (auto simp add: list_all_iff)
qed

lemma mode_assigned:
  "addressingModeMethod (opcodeTable op) \<noteq> None \<longleftrightarrow> op \<in> set assigned_opcodes"
proof
  assume "addressingModeMethod (opcodeTable op) \<noteq> None"
  then show "op \<in> set assigned_opcodes"
    using opcodeTable_unassigned [of op] by (cases "op \<in> set assigned_opcodes") (auto simp add: null_entry_def)
next
  assume "op \<in> set assigned_opcodes"
  then have "(op, opcodeTable op) \<in> set opcode_assignments" by (rule opcodeTable_assigned)
  with all_entries show "addressingModeMethod (opcodeTable op) \<noteq> None"
    by (auto simp add: list_all_iff)
qed

lemma implemented_iff: "implemented_opcode op \<longleftrightarrow> op \<in> set assigned_opcodes"
  unfolding implemented_opcode_def instr_assigned mode_assigned by (rule conj_absorb)

lemma implemented_set: "Collect implemented_opcode = set assigned_opcodes"
  by (rule set_eqI) (simp only: mem_Collect_eq implemented_iff)

lemma card_implemented: "card (Collect implemented_opcode) = 59"
  by (simp add: implemented_set distinct_card [OF distinct_assigned] length_assigned)

lemma cycles_range:
  assumes "implemented_opcode op"
  shows "2 \<le> cycles (opcodeTable op) \<and> cycles (opcodeTable op) \<le> 7"
proof -
  from assms have "op \<in> set assigned_opcodes" by (simp only: implemented_iff)
  then have "(op, opcodeTable op) \<in> set opcode_assignments" by (rule opcodeTable_assigned)
  with all_entries show ?thesis by (auto simp add: list_all_iff)
qed

lemma mnemonic_count_filter:
  "mnemonic_count i = length (filter (\<lambda>(k, e). instructionMethod e = Some i) opcode_assignments)"
proof -
  let ?P = "\<lambda>(k, e). instructionMethod e = Some i"
  have "{op. instructionMethod (opcodeTable op) = Some i} = fst ` set (filter ?P opcode_assignments)"
  proof (intro set_eqI iffI)
    fix op assume "op \<in> {op. instructionMethod (opcodeTable op) = Some i}"
    then have i: "instructionMethod (opcodeTable op) = Some i" by simp
    then have "op \<in> set assigned_opcodes" using instr_assigned [of op] by simp
    then have "(op, opcodeTable op) \<in> set opcode_assignments" by (rule opcodeTable_assigned)
    with i have "(op, opcodeTable op) \<in> set (filter ?P opcode_assignments)" by simp
    then show "op \<in> fst ` set (filter ?P opcode_assignments)" by force
  next
    fix op assume "op \<in> fst ` set (filter ?P opcode_assignments)"
    then obtain e where e: "(op, e) \<in> set opcode_assignments" "instructionMethod e = Some i" by auto
    then have "map_of opcode_assignments op = Some e"
      using distinct_assigned by (simp add: assigned_opcodes_def)
    then have "opcodeTable op = e" by (simp add: opcodeTable_lookup)
    with e show "op \<in> {op. instructionMethod (opcodeTable op) = Some i}" by simp
  qed
  moreover have "distinct (map fst (filter ?P opcode_assignments))"
    using distinct_assigned by (simp add: assigned_opcodes_def distinct_map_filter)
  ultimately show ?thesis
    unfolding mnemonic_count_def by (simp only: distinct_card length_map flip: set_map)
qed

lemma counts:
  "mnemonic_count PtrLDA = 8" "mnemonic_count PtrLDX = 5" "mnemonic_count PtrLDY = 5" 
  "mnemonic_count PtrSTA = 7" "mnemonic_count PtrSTX = 3" "mnemonic_count PtrSTY = 3" 
  "mnemonic_count PtrADC = 8" "mnemonic_count PtrSBC = 8" "mnemonic_count PtrINC = 4" 
  "mnemonic_count PtrDEC = 4" "mnemonic_count PtrINX = 1" "mnemonic_count PtrINY = 1" 
  "mnemonic_count PtrDEX = 1" "mnemonic_count PtrDEY = 1" 
  by (simp_all add: mnemonic_count_filter opcode_assignments_def InstructionData4_def InstructionData5_def)

subsection \<open>The diagnostic determines the opcode\<close>

lemma nibble_cases: "(d::u8) < 0x10 \<Longrightarrow> d \<in> {0,1,2,3,4,5,6,7,8,9,10,11,12,13,14,15}"
proof -
  assume "d < 0x10"
  then have "unat d < 16" by (simp add: word_less_nat_alt)
  then have "unat d \<in> {0,1,2,3,4,5,6,7,8,9,10,11,12,13,14,15}" by auto arith
  then have "of_nat (unat d) \<in> (of_nat ` {0,1,2,3,4,5,6,7,8,9,10,11,12,13,14,15} :: u8 set)" by (rule imageI)
  then show ?thesis by simp
qed

lemma digit_value_hex_digit: "d < 0x10 \<Longrightarrow> digit_value (hex_digit d) = d"
  by (drule nibble_cases) (auto simp add: hex_digit_def digit_value_def)

lemma hex_digit_inj: "a < 0x10 \<Longrightarrow> b < 0x10 \<Longrightarrow> hex_digit a = hex_digit b \<Longrightarrow> a = b"
  by (metis digit_value_hex_digit)

lemma hi_nibble: "drop_bit 4 (v::u8) < 0x10"
proof -
  have "unat v < 256" using unsigned_less [of v, where ?'a = nat] by simp
  then have "unat v div 16 < 16" by arith
  then show ?thesis by (simp add: word_less_nat_alt drop_bit_eq_div unat_div)
qed

lemma lo_nibble: "(v::u8) AND 0x0F < 0x10"
proof -
  have "(0x0F::u8) = mask 4" by (simp add: mask_eq_exp_minus_1)
  then have "v AND 0x0F = take_bit 4 v" by (simp add: take_bit_eq_mask)
  moreover have "unat (take_bit 4 v) < 16"
    by (simp add: take_bit_eq_mod unat_mod)
  ultimately show ?thesis by (simp add: word_less_nat_alt)
qed

lemma nibbles_ident: "push_bit 4 (drop_bit 4 a) + (a AND 0x0F) = (a::u8)"
proof -
  have "(0x0F::u8) = mask 4" by (simp add: mask_eq_exp_minus_1)
  then have "a AND 0x0F = take_bit 4 a" by (simp add: take_bit_eq_mask)
  then show ?thesis by (simp add: bits_ident)
qed

lemma nibbles_eq: "drop_bit 4 (a::u8) = drop_bit 4 b \<Longrightarrow> a AND 0x0F = b AND 0x0F \<Longrightarrow> a = b"
  by (metis nibbles_ident)

lemma hex_inj: "hex a = hex b \<Longrightarrow> a = b"
proof -
  assume h: "hex a = hex b"
  show ?thesis
  proof (cases "a < 0x10")
    case True
    with h have b: "b < 0x10" by (auto simp add: hex_def split: if_splits)
    with True h show ?thesis by (simp add: hex_def hex_digit_inj)
  next
    case False
    with h have b: "\<not> b < 0x10" by (auto simp add: hex_def split: if_splits)
    with False h have "hex_digit (drop_bit 4 a) = hex_digit (drop_bit 4 b)"
      "hex_digit (a AND 0x0F) = hex_digit (b AND 0x0F)" by (simp_all add: hex_def)
    then have "drop_bit 4 a = drop_bit 4 b" "a AND 0x0F = b AND 0x0F"
      by (simp_all add: hex_digit_inj hi_nibble lo_nibble)
    then show ?thesis by (rule nibbles_eq)
  qed
qed

lemma Tick_unimplemented_state:
  assumes "bus_Read B (bus c) (reg_pc c) = (opcode, b')"
    and "instructionMethod (opcodeTable opcode) = None \<or> addressingModeMethod (opcodeTable opcode) = None"
  shows "Tick B c = c\<lparr>reg_pc := reg_pc c + 1, bus := b', cerr := cerr c @ bad_opcode_message opcode\<rparr>"
  using assms by (auto simp add: Tick_def Fetch_def Read_def Let_def split: option.splits)

subsection \<open>Cycles and addresses of the addressing modes\<close>

lemma page_of_word: "(push_bit 8 (ucast (h::u8)) OR ucast (l::u8)) AND 0xFF00 = (push_bit 8 (ucast h) :: u16)"
proof -
  have m: "(0xFF00::u16) = NOT (mask 8)" by (simp add: mask_eq_exp_minus_1)
  show ?thesis
    unfolding m
    by (rule bit_eqI) (auto simp add: bit_simps dest: bit_imp_le_length)
qed

lemma mode_cycles:
  "reg_cycles (snd (call_addressing_mode m B c)) =
     reg_cycles c + (if currentPageCrossPenalty c \<and> m \<in> {PtrABSX, PtrABSY, PtrINDY} \<and>
        spec_page (fst (call_addressing_mode m B c)) \<noteq> spec_page (spec_base_address m B c) then 1 else 0)"
  by (cases m; simp add: call_addressing_mode_def mode_defs Read_eq split_def Let_def
      spec_page_def spec_base_address_def spec_word_at_pc_def spec_zero_page_pointer_def page_of_word)

lemma mode_indexed_address:
  "m \<in> {PtrABSX, PtrABSY, PtrINDY} \<Longrightarrow>
   fst (call_addressing_mode m B c) = spec_base_address m B c + ucast (spec_index m c)"
  by (auto simp add: call_addressing_mode_def mode_defs Read_eq split_def Let_def
      spec_index_def spec_base_address_def spec_word_at_pc_def spec_zero_page_pointer_def)

subsection \<open>Evaluation on the flat bus\<close>

lemma flat_bus_simps [simp]:
  "bus_Read flat_bus m a = (m a, m)"
  "bus_Write flat_bus m a v = m(a := v)"
  by (simp_all add: flat_bus_def)

lemma fetch_BD: "Fetch flat_bus scenario_lda_absx_cross = (0xBD, scenario_lda_absx_cross\<lparr>reg_pc := 0x8001\<rparr>)"
  by (simp add: Fetch_eq scenario_lda_absx_cross_def flat_cpu_def ram_of_def)

lemma lookup_BD: "opcodeTable 0xBD = InstructionData4 ''LDA_AbsoluteX'' PtrLDA PtrABSX 4"
  by (simp add: opcodeTable_lookup opcode_assignments_def)

subsection \<open>Bytes, sums and sign bits\<close>

lemma unat_u8_lt: "unat (x::u8) < 256"
  using unsigned_less [of x, where ?'a = nat] by simp

lemma unat_ucast_u8_u16: "unat (ucast (x::u8) :: u16) = unat x"
proof -
  have "unat x < 2 ^ 16" using unat_u8_lt [of x] by simp
  then show ?thesis by (simp add: unsigned_ucast_eq take_bit_nat_eq_self)
qed

lemma unat_sum16:
  "unat (ucast (a::u8) + ucast (v::u8) + ucast (k::u8) :: u16) = unat a + unat v + unat k"
proof -
  have "unat a + unat v + unat k < 65536"
    using unat_u8_lt [of a] unat_u8_lt [of v] unat_u8_lt [of k] by arith
  then show ?thesis
    by (simp add: unat_word_ariths unat_ucast_u8_u16)
qed

lemma and_FF: "(x::u16) AND 0xFF = take_bit 8 x"
proof -
  have "(0xFF::u16) = mask 8" by (simp add: mask_eq_exp_minus_1)
  then show ?thesis by (simp add: take_bit_eq_mask)
qed

lemma low_byte: "(ucast ((x::u16) AND 0xFF) :: u8) = ucast x"
  by (rule bit_eqI) (auto simp add: and_FF bit_simps dest: bit_imp_le_length)

lemma unat_low_byte: "unat (ucast (x::u16) :: u8) = unat x mod 256"
  by (simp add: unsigned_ucast_eq take_bit_eq_mod)

lemma low_byte_zero: "((x::u16) AND 0xFF = 0) \<longleftrightarrow> (ucast x :: u8) = 0"
proof -
  have "unat (take_bit 8 x) = unat x mod 256"
    by (simp add: take_bit_eq_mod unat_mod)
  then show ?thesis
    unfolding and_FF by (simp add: word_unat_eq_iff unat_low_byte)
qed

lemma and_exp_word: "(x::'a::len word) AND 2 ^ n = (if bit x n then 2 ^ n else 0)"
  by (rule bit_eqI) (auto simp add: bit_simps)

lemma and_80_u8: "(x::u8) AND 0x80 = (if bit x 7 then 0x80 else 0)"
  using and_exp_word [of x 7] by simp

lemma and_80_u16: "(x::u16) AND 0x80 = (if bit x 7 then 0x80 else 0)"
  using and_exp_word [of x 7] by simp

lemma bit7_low_byte: "bit (ucast (x::u16) :: u8) 7 = bit x 7"
  by (simp add: bit_ucast_iff)

lemma IsFlagSet_bit: "k < 8 \<Longrightarrow> IsFlagSet (2 ^ k) c \<longleftrightarrow> bit (reg_p c) k"
  unfolding IsFlagSet_def by (simp add: and_exp_word)

lemma bit_assign_bit:
  "bit (spec_assign_bit b k p) j \<longleftrightarrow> (if j = k then b \<and> k < 8 else bit p j)"
  by (auto simp add: spec_assign_bit_def bit_simps dest: bit_imp_le_length)

lemma set_or_clear_eq:
  "set_or_clear b (2 ^ k) c = c\<lparr>reg_p := spec_assign_bit b k (reg_p c)\<rparr>"
  by (simp add: set_or_clear_def SetFlags_def ClearFlags_def spec_assign_bit_def)

lemma set_or_clear_flags:
  "set_or_clear b Status_Carry c = c\<lparr>reg_p := spec_assign_bit b 0 (reg_p c)\<rparr>"
  "set_or_clear b Status_Zero c = c\<lparr>reg_p := spec_assign_bit b 1 (reg_p c)\<rparr>"
  "set_or_clear b Status_Overflow c = c\<lparr>reg_p := spec_assign_bit b 6 (reg_p c)\<rparr>"
  "set_or_clear b Status_Negative c = c\<lparr>reg_p := spec_assign_bit b 7 (reg_p c)\<rparr>"
  using set_or_clear_eq [of b 0 c] set_or_clear_eq [of b 1 c] set_or_clear_eq [of b 6 c]
    set_or_clear_eq [of b 7 c]
  by (simp_all add: Status_Carry_def Status_Zero_def Status_Overflow_def Status_Negative_def)

lemma IsFlagSet_Carry: "IsFlagSet Status_Carry c \<longleftrightarrow> bit (reg_p c) 0"
  using IsFlagSet_bit [of 0 c] by (simp add: Status_Carry_def)

lemma sign_eq: "((if x then (0x80::u8) else 0) = (if y then 0x80 else 0)) \<longleftrightarrow> x = y"
  by simp

lemma ADC_eq:
  assumes "bus_Read B (bus c) address = (v, b')"
  shows "ADC B address c =
     (let carry = (if bit (reg_p c) 0 then 1 else 0 :: u8);
          sum = (ucast (reg_a c) + ucast v + ucast carry :: u16);
          r = (ucast sum :: u8)
      in c\<lparr>bus := b',
            reg_p := spec_assign_bit (bit r 7) 7
                      (spec_assign_bit (bit (reg_a c) 7 = bit v 7 \<and> bit (reg_a c) 7 \<noteq> bit r 7) 6
                        (spec_assign_bit (r = 0) 1
                          (spec_assign_bit (sum > 0xFF) 0 (reg_p c)))),
            reg_a := r\<rparr>)"
  using assms
  by (simp add: ADC_def Read_eq Let_def IsFlagSet_Carry set_or_clear_flags
       low_byte low_byte_zero and_80_u8 and_80_u16 bit7_low_byte sign_eq)

lemma SBC_eq:
  assumes "bus_Read B (bus c) address = (v, b')"
  shows "SBC B address c =
     (let carry = (if bit (reg_p c) 0 then 0 else 1 :: u8);
          diff = (ucast (reg_a c) - ucast v - ucast carry :: u16);
          r = (ucast diff :: u8)
      in c\<lparr>bus := b',
            reg_p := spec_assign_bit (bit r 7) 7
                      (spec_assign_bit (bit (reg_a c) 7 \<noteq> bit v 7 \<and> bit (reg_a c) 7 \<noteq> bit r 7) 6
                        (spec_assign_bit (r = 0) 1
                          (spec_assign_bit (diff < 0x100) 0 (reg_p c)))),
            reg_a := r\<rparr>)"
  using assms
  by (simp add: SBC_def Read_eq Let_def IsFlagSet_Carry set_or_clear_flags
       low_byte low_byte_zero and_80_u8 and_80_u16 bit7_low_byte sign_eq)

lemma mod_256_65536: "(k::int) mod 65536 mod 256 = k mod 256"
  by (simp add: mod_mod_cancel)

lemma ucast_add_down: "(ucast (x + y :: u16) :: u8) = ucast x + ucast y"
proof transfer
  fix x y :: int
  have "(x mod 65536 + y mod 65536) mod 256
        = ((x mod 65536) mod 256 + (y mod 65536) mod 256) mod 256"
    by (simp only: mod_add_eq)
  also have "\<dots> = (x mod 256 + y mod 256) mod 256" by (simp only: mod_256_65536)
  also have "\<dots> = (x + y) mod 256" by (simp only: mod_add_eq)
  finally show "take_bit LENGTH(8) (take_bit LENGTH(16) (x + y)) =
       take_bit LENGTH(8) (take_bit LENGTH(16) x + take_bit LENGTH(16) y)"
    by (simp add: take_bit_eq_mod mod_256_65536)
qed

lemma ucast_sub_down: "(ucast (x - y :: u16) :: u8) = ucast x - ucast y"
proof transfer
  fix x y :: int
  have "(x mod 65536 - y mod 65536) mod 256
        = ((x mod 65536) mod 256 - (y mod 65536) mod 256) mod 256"
    by (simp only: mod_diff_eq)
  also have "\<dots> = (x mod 256 - y mod 256) mod 256" by (simp only: mod_256_65536)
  also have "\<dots> = (x - y) mod 256" by (simp only: mod_diff_eq)
  finally show "take_bit LENGTH(8) (take_bit LENGTH(16) (x - y)) =
       take_bit LENGTH(8) (take_bit LENGTH(16) x - take_bit LENGTH(16) y)"
    by (simp add: take_bit_eq_mod mod_256_65536)
qed

lemma ucast_ucast_u8: "(ucast (ucast (x::u8) :: u16) :: u8) = x"
  by (simp add: ucast_up_ucast_id is_up)

lemma unat_diff16:
  "unat (ucast (a::u8) - ucast (v::u8) :: u16) = (if unat v \<le> unat a then unat a - unat v else 65536 + unat a - unat v)"
  using unat_u8_lt [of a] unat_u8_lt [of v]
  by (simp add: unat_sub_if_size unat_ucast_u8_u16 word_size) arith

lemma unat_not_u8: "unat (NOT (v::u8)) = 255 - unat v"
proof -
  have "NOT v = 255 - v" by (simp add: not_eq_complement)
  moreover have "v \<le> 255" using unat_u8_lt [of v] by (simp add: word_le_nat_alt)
  ultimately show ?thesis by (simp add: unat_sub)
qed

lemma IsFlagSet_flags:
  "IsFlagSet Status_Carry c \<longleftrightarrow> bit (reg_p c) 0"
  "IsFlagSet Status_Zero c \<longleftrightarrow> bit (reg_p c) 1"
  "IsFlagSet Status_Overflow c \<longleftrightarrow> bit (reg_p c) 6"
  "IsFlagSet Status_Negative c \<longleftrightarrow> bit (reg_p c) 7"
  using IsFlagSet_bit [of 0 c] IsFlagSet_bit [of 1 c] IsFlagSet_bit [of 6 c] IsFlagSet_bit [of 7 c]
  by (simp_all add: Status_Carry_def Status_Zero_def Status_Overflow_def Status_Negative_def)

lemma assign_bit_or:
  "j \<noteq> k \<Longrightarrow> spec_assign_bit b k (p OR 2 ^ j) = spec_assign_bit b k p OR 2 ^ j"
  by (rule bit_eqI) (auto simp add: bit_assign_bit bit_simps)

lemma assign_bit_and_not:
  "j \<noteq> k \<Longrightarrow> spec_assign_bit b k (p AND NOT (2 ^ j)) = spec_assign_bit b k p AND NOT (2 ^ j)"
  by (rule bit_eqI) (auto simp add: bit_assign_bit bit_simps)

lemma assign_bit_or_D:
  "k \<noteq> 3 \<Longrightarrow>
   spec_assign_bit b k (p OR Status_Decimal) = spec_assign_bit b k p OR Status_Decimal"
  using assign_bit_or [of 3 k b p] by (simp add: Status_Decimal_def)

lemma assign_bit_and_not_D:
  "k \<noteq> 3 \<Longrightarrow>
   spec_assign_bit b k (p AND NOT Status_Decimal) = spec_assign_bit b k p AND NOT Status_Decimal"
  using assign_bit_and_not [of 3 k b p] by (simp add: Status_Decimal_def)

lemma other_bit_or: "j \<noteq> k \<Longrightarrow> bit ((p::u8) OR 2 ^ k) j = bit p j"
  by (simp add: bit_simps)

lemma other_bit_and_not: "j \<noteq> k \<Longrightarrow> bit ((p::u8) AND NOT (2 ^ k)) j = bit p j"
  by (auto simp add: bit_simps dest: bit_imp_le_length)

lemma carry_bit_D:
  "bit (p OR Status_Decimal) 0 = bit p 0" "bit (p AND NOT Status_Decimal) 0 = bit p 0"
  using other_bit_or [of 0 3 p] other_bit_and_not [of 0 3 p]
  by (simp_all add: Status_Decimal_def)

lemma ADC_Decimal_set:
  "ADC B address (SetFlags Status_Decimal c) = SetFlags Status_Decimal (ADC B address c)"
proof -
  obtain v b' where r: "bus_Read B (bus c) address = (v, b')" by (cases "bus_Read B (bus c) address")
  then have r': "bus_Read B (bus (SetFlags Status_Decimal c)) address = (v, b')"
    by (simp add: SetFlags_def)
  show ?thesis
    using ADC_eq [OF r] ADC_eq [OF r']
    by (simp add: SetFlags_def Let_def carry_bit_D assign_bit_or_D)
qed

lemma ADC_Decimal_clear:
  "ADC B address (ClearFlags Status_Decimal c) = ClearFlags Status_Decimal (ADC B address c)"
proof -
  obtain v b' where r: "bus_Read B (bus c) address = (v, b')" by (cases "bus_Read B (bus c) address")
  then have r': "bus_Read B (bus (ClearFlags Status_Decimal c)) address = (v, b')"
    by (simp add: ClearFlags_def)
  show ?thesis
    using ADC_eq [OF r] ADC_eq [OF r']
    by (simp add: ClearFlags_def Let_def carry_bit_D assign_bit_and_not_D)
qed

lemma sbc_adc_byte: "(ucast (ucast (a::u8) - ucast (v::u8) :: u16) :: u8)
     = ucast (ucast a + ucast (NOT v) + 1 :: u16)"
proof -
  have "(ucast (ucast a - ucast v :: u16) :: u8) = a - v"
    by (simp add: ucast_sub_down ucast_ucast_u8)
  moreover have "(ucast (ucast a + ucast (NOT v) + 1 :: u16) :: u8) = a + NOT v + 1"
    by (simp add: ucast_add_down ucast_ucast_u8)
  moreover have "a + NOT v + 1 = a - v" by (simp add: not_eq_complement)
  ultimately show ?thesis by simp
qed

lemma sbc_adc_carry: "(ucast (a::u8) - ucast (v::u8) :: u16) < 0x100
     \<longleftrightarrow> (ucast a + ucast (NOT v) + 1 :: u16) > 0xFF"
proof -
  have "unat (ucast a - ucast v :: u16) < 256 \<longleftrightarrow> unat v \<le> unat a"
    using unat_u8_lt [of a] unat_u8_lt [of v] by (simp add: unat_diff16) arith
  moreover have "255 < unat (ucast a + ucast (NOT v) + ucast (1::u8) :: u16) \<longleftrightarrow> unat v \<le> unat a"
    using unat_u8_lt [of a] unat_u8_lt [of v] by (simp only: unat_sum16 unat_not_u8) (simp, arith)
  ultimately show ?thesis by (simp add: word_less_nat_alt)
qed

lemma lookup_9D: "opcodeTable 0x9D = InstructionData5 ''STA_AbsoluteX'' PtrSTA PtrABSX 5 False"
  by (simp add: opcodeTable_lookup opcode_assignments_def)

lemma fetch_9D:
  "Fetch flat_bus scenario_sta_absx_cross = (0x9D, scenario_sta_absx_cross\<lparr>reg_pc := 0x8001\<rparr>)"
  by (simp add: Fetch_eq scenario_sta_absx_cross_def flat_cpu_def ram_of_def)

section \<open>Status flag helpers\<close>

text \<open>
  Claim C8, as amended. \<open>IsFlagSet m\<close> is true iff \<open>(P & m) == m\<close>. For every mask \<open>m\<close>
  and every state, \<open>SetFlags m\<close> followed by \<open>IsFlagSet m\<close> gives true. \<open>ClearFlags m\<close>
  followed by \<open>IsFlagSet m\<close> gives false for every non-zero mask, and true for the empty
  mask \<open>m = 0\<close>, because \<open>(P & 0) == 0\<close> holds for every \<open>P\<close>.
\<close>

theorem flag_set_clear_query:
  "IsFlagSet m (SetFlags m c)
   \<and> (IsFlagSet m (ClearFlags m c) \<longleftrightarrow> m = 0)
   \<and> (IsFlagSet m c \<longleftrightarrow> (reg_p c AND m) = m)"
  by (auto simp add: IsFlagSet_def SetFlags_def ClearFlags_def word_bw_assocs word_ao_absorbs)

text \<open>The claim as first stated (false after clearing, for every mask) fails at the
  empty mask: on the state of the fixture, clearing no flag and then asking for no flag
  answers true.\<close>

theorem clear_empty_mask_counterexample:
  "IsFlagSet 0 (ClearFlags 0 (flat_cpu 0x8000 0 0 0 0x20 [])) = True"
  by (simp add: IsFlagSet_def ClearFlags_def flat_cpu_def)

section \<open>Frame properties\<close>

text \<open>
  Claim C9. Every instruction handler changes the status register only inside the set
  of bits \<open>spec_flags_written\<close> lists for it: Zero and Negative for LDA, LDX, LDY, INC,
  DEC, INX, INY, DEX and DEY, no bit for STA, STX and STY, and Carry, Zero, Overflow and
  Negative for ADC and SBC. None of these sets contains bit 2 (InterruptDisable), bit 3
  (Decimal) or bit 4 (Break), so every handler and every Tick leaves these three bits as
  they were. The statement about Tick holds for every opcode, in particular for those
  the table dispatches.
\<close>

theorem handlers_preserve_interrupt_decimal_break:
  "reg_p (call_instruction i B address c) AND NOT (spec_flags_written i)
      = reg_p c AND NOT (spec_flags_written i)
   \<and> spec_flags_written i AND (Status_InterruptDisable OR Status_Decimal OR Status_Break) = 0
   \<and> reg_p (call_instruction i B address c)
        AND (Status_InterruptDisable OR Status_Decimal OR Status_Break)
      = reg_p c AND (Status_InterruptDisable OR Status_Decimal OR Status_Break)
   \<and> reg_p (STA B address c) = reg_p c
   \<and> reg_p (STX B address c) = reg_p c
   \<and> reg_p (STY B address c) = reg_p c
   \<and> reg_p (Tick B c) AND (Status_InterruptDisable OR Status_Decimal OR Status_Break)
      = reg_p c AND (Status_InterruptDisable OR Status_Decimal OR Status_Break)"
  by (simp add: instr_flags flags_written_disjoint instr_keeps_IDB Tick_keeps_IDB
        STA_def STX_def STY_def StoreRegister_def Write_def)

text \<open>
  Claim C10. For every opcode, implemented or not, and every state of CPU and bus,
  Tick leaves the stack pointer unchanged: no addressing mode, no instruction handler
  and no helper writes it. Reset sets it to \<open>0xFD\<close>, and \<open>SetStackPointer\<close> sets it to its
  argument; the other setters leave it alone.
\<close>

theorem stack_pointer_frame:
  "reg_s (Tick B c) = reg_s c
   \<and> reg_s (snd (Fetch B c)) = reg_s c
   \<and> reg_s (snd (call_addressing_mode m B c)) = reg_s c
   \<and> reg_s (call_instruction i B address c) = reg_s c
   \<and> reg_s (SetFlags f c) = reg_s c
   \<and> reg_s (ClearFlags f c) = reg_s c
   \<and> reg_s (SetZeroAndNegativeFlags v c) = reg_s c
   \<and> reg_s (snd (Read B address c)) = reg_s c
   \<and> reg_s (Write B address v c) = reg_s c
   \<and> reg_s (SetAccumulator v c) = reg_s c
   \<and> reg_s (SetXRegister v c) = reg_s c
   \<and> reg_s (SetYRegister v c) = reg_s c
   \<and> reg_s (SetStatusRegister v c) = reg_s c
   \<and> reg_s (SetProgramCounter w c) = reg_s c
   \<and> reg_s (SetCycles n c) = reg_s c
   \<and> reg_s (Reset B c) = 0xFD
   \<and> reg_s (SetStackPointer v c) = v"
  by (simp add: Tick_reg_s mode_frame instr_frame Fetch_eq Read_eq Write_def SetFlags_def
        ClearFlags_def SetZeroAndNegativeFlags_eq SetAccumulator_def SetXRegister_def
        SetYRegister_def SetStatusRegister_def SetProgramCounter_def SetCycles_def
        SetStackPointer_def Reset_def split_def Let_def)

section \<open>The decode table\<close>

text \<open>
  Claim C6, as amended. The table the constructor builds holds non-null handlers for
  exactly 59 opcodes: the opcodes the constructor assigns, which are pairwise distinct.
  They are 8 for LDA, 5 for LDX, 5 for LDY, 7 for STA, 3 for STX, 3 for STY, 8 for ADC,
  8 for SBC, 4 for INC, 4 for DEC and one each for INX, INY, DEX and DEY, which add up
  to 59. For every opcode the two handlers are either both non-null or both null, and
  every entry outside the 59 is the value-initialised entry with null handlers.
\<close>

theorem decode_table_entries:
  "Collect implemented_opcode = set assigned_opcodes
   \<and> distinct assigned_opcodes
   \<and> length assigned_opcodes = 59
   \<and> card (Collect implemented_opcode) = 59
   \<and> (instructionMethod (opcodeTable opcode) \<noteq> None \<longleftrightarrow> implemented_opcode opcode)
   \<and> (addressingModeMethod (opcodeTable opcode) \<noteq> None \<longleftrightarrow> implemented_opcode opcode)
   \<and> (implemented_opcode opcode \<or> opcodeTable opcode = null_entry)
   \<and> instructionMethod null_entry = None \<and> addressingModeMethod null_entry = None
   \<and> mnemonic_count PtrLDA = 8 \<and> mnemonic_count PtrLDX = 5 \<and> mnemonic_count PtrLDY = 5
   \<and> mnemonic_count PtrSTA = 7 \<and> mnemonic_count PtrSTX = 3 \<and> mnemonic_count PtrSTY = 3
   \<and> mnemonic_count PtrADC = 8 \<and> mnemonic_count PtrSBC = 8
   \<and> mnemonic_count PtrINC = 4 \<and> mnemonic_count PtrDEC = 4
   \<and> mnemonic_count PtrINX = 1 \<and> mnemonic_count PtrINY = 1
   \<and> mnemonic_count PtrDEX = 1 \<and> mnemonic_count PtrDEY = 1"
proof -
  have "implemented_opcode opcode \<or> opcodeTable opcode = null_entry"
    using opcodeTable_unassigned [of opcode] by (auto simp only: implemented_iff)
  moreover have "instructionMethod null_entry = None \<and> addressingModeMethod null_entry = None"
    by (simp add: null_entry_def)
  ultimately show ?thesis
    by (simp only: implemented_set distinct_assigned length_assigned
          distinct_card [OF distinct_assigned] instr_assigned mode_assigned implemented_iff
          counts simp_thms)
qed

text \<open>The count of 58 in the claim as first stated does not hold of the table.\<close>

theorem decode_table_58_counterexample:
  "card (Collect implemented_opcode) \<noteq> 58"
  by (simp add: card_implemented)

section \<open>Tick\<close>

text \<open>
  Claim C1. Let the opcode fetched by Tick have an entry with both handlers. Then the
  fetch leaves the cycle counter alone; the addressing mode adds 1 to it exactly when
  the entry's \<open>pageCrossPenalty\<close> flag is true, the mode is ABSX, ABSY or INDY, and the
  effective address lies in another page than the base address, and adds nothing
  otherwise; the instruction handler leaves the counter alone; and Tick then adds the
  entry's \<open>cycles\<close>, which lie between 2 and 7. So one Tick advances the counter by the
  base cycles plus the penalty of 0 or 1 (the counter is a 64-bit word). For the three
  indexed modes the effective address is the base address plus the index register.
\<close>

theorem Tick_cycle_count:
  assumes "Fetch B c = (opcode, c1)"
    and "instructionMethod (opcodeTable opcode) = Some ih"
    and "addressingModeMethod (opcodeTable opcode) = Some mh"
    and "c2 = c1\<lparr>currentPageCrossPenalty := pageCrossPenalty (opcodeTable opcode)\<rparr>"
    and "call_addressing_mode mh B c2 = (address, c3)"
    and "c4 = call_instruction ih B address c3"
    and "penalty = (if pageCrossPenalty (opcodeTable opcode) \<and> mh \<in> {PtrABSX, PtrABSY, PtrINDY}
                       \<and> spec_page address \<noteq> spec_page (spec_base_address mh B c2)
                    then 1 else 0)"
  shows "reg_cycles c1 = reg_cycles c
       \<and> reg_cycles c2 = reg_cycles c
       \<and> reg_cycles c3 = reg_cycles c + penalty
       \<and> reg_cycles c4 = reg_cycles c3
       \<and> Tick B c = c4\<lparr>reg_cycles := reg_cycles c4 + of_nat (cycles (opcodeTable opcode))\<rparr>
       \<and> reg_cycles (Tick B c) = reg_cycles c + of_nat (cycles (opcodeTable opcode)) + penalty
       \<and> 2 \<le> cycles (opcodeTable opcode) \<and> cycles (opcodeTable opcode) \<le> 7
       \<and> (mh \<in> {PtrABSX, PtrABSY, PtrINDY} \<longrightarrow>
            address = spec_base_address mh B c2 + ucast (spec_index mh c2))"
proof -
  have c1: "reg_cycles c1 = reg_cycles c"
    using assms(1) by (auto simp add: Fetch_eq)
  have c2: "reg_cycles c2 = reg_cycles c" "currentPageCrossPenalty c2 = pageCrossPenalty (opcodeTable opcode)"
    using c1 assms(4) by simp_all
  have c3: "reg_cycles c3 = reg_cycles c + penalty"
    using mode_cycles [of mh B c2] assms(5,7) c2 by simp
  have c4: "reg_cycles c4 = reg_cycles c3"
    using assms(6) by (simp add: instr_frame)
  have t: "Tick B c = c4\<lparr>reg_cycles := reg_cycles c4 + of_nat (cycles (opcodeTable opcode))\<rparr>"
    using assms(1-6) by (simp add: Tick_def Let_def)
  have r: "2 \<le> cycles (opcodeTable opcode) \<and> cycles (opcodeTable opcode) \<le> 7"
    using assms(2,3) by (intro cycles_range) (simp add: implemented_opcode_def)
  have a: "mh \<in> {PtrABSX, PtrABSY, PtrINDY} \<longrightarrow>
            address = spec_base_address mh B c2 + ucast (spec_index mh c2)"
    using mode_indexed_address [of mh B c2] assms(5) by simp
  from c1 c2 c3 c4 t r a show ?thesis by (simp add: add.commute add.left_commute)
qed

text \<open>Scenarios 5 and 6 of the specification. LDA Absolute,X crossing a page takes 4 base
  cycles and 1 for the crossing; STA Absolute,X crossing the same page takes its 5 base
  cycles and no more, its entry having the penalty flag false.\<close>

theorem Tick_cycle_count_witness:
  "fst (Fetch flat_bus scenario_lda_absx_cross) = 0xBD
   \<and> instructionMethod (opcodeTable 0xBD) = Some PtrLDA
   \<and> addressingModeMethod (opcodeTable 0xBD) = Some PtrABSX
   \<and> pageCrossPenalty (opcodeTable 0xBD)
   \<and> cycles (opcodeTable 0xBD) = 4
   \<and> reg_cycles scenario_lda_absx_cross = 0
   \<and> reg_cycles (Tick flat_bus scenario_lda_absx_cross) = 5
   \<and> fst (Fetch flat_bus scenario_sta_absx_cross) = 0x9D
   \<and> instructionMethod (opcodeTable 0x9D) = Some PtrSTA
   \<and> addressingModeMethod (opcodeTable 0x9D) = Some PtrABSX
   \<and> \<not> pageCrossPenalty (opcodeTable 0x9D)
   \<and> cycles (opcodeTable 0x9D) = 5
   \<and> reg_cycles scenario_sta_absx_cross = 0
   \<and> reg_cycles (Tick flat_bus scenario_sta_absx_cross) = 5"
proof -
  let ?c = scenario_lda_absx_cross
  let ?c1 = "?c\<lparr>reg_pc := 0x8001\<rparr>"
  have i: "instructionMethod (opcodeTable 0xBD) = Some PtrLDA"
    and m: "addressingModeMethod (opcodeTable 0xBD) = Some PtrABSX"
    and e: "pageCrossPenalty (opcodeTable 0xBD) \<and> cycles (opcodeTable 0xBD) = 4"
    by (simp_all add: lookup_BD InstructionData4_def InstructionData5_def)
  have a: "call_addressing_mode PtrABSX flat_bus
             (?c1\<lparr>currentPageCrossPenalty := pageCrossPenalty (opcodeTable 0xBD)\<rparr>)
           = (0x2110, ?c1\<lparr>reg_pc := 0x8003, reg_cycles := 1\<rparr>)"
    by (simp add: call_addressing_mode_def ABSX_def Read_eq e scenario_lda_absx_cross_def
          flat_cpu_def ram_of_def)
  have b: "spec_base_address PtrABSX flat_bus (?c1\<lparr>currentPageCrossPenalty := q\<rparr>) = 0x20F0"
    for q
    by (simp add: spec_base_address_def spec_word_at_pc_def scenario_lda_absx_cross_def
          flat_cpu_def ram_of_def)
  have z: "reg_cycles ?c = 0"
    by (simp add: scenario_lda_absx_cross_def flat_cpu_def)
  note T = Tick_cycle_count [OF fetch_BD i m refl a refl refl]
  from T [THEN conjunct2, THEN conjunct2, THEN conjunct2, THEN conjunct2, THEN conjunct2,
          THEN conjunct1]
  have lda: "reg_cycles (Tick flat_bus ?c) = 5"
    by (simp add: b e z spec_page_def)
  let ?d = scenario_sta_absx_cross
  let ?d1 = "?d\<lparr>reg_pc := 0x8001\<rparr>"
  have i': "instructionMethod (opcodeTable 0x9D) = Some PtrSTA"
    and m': "addressingModeMethod (opcodeTable 0x9D) = Some PtrABSX"
    and e': "\<not> pageCrossPenalty (opcodeTable 0x9D) \<and> cycles (opcodeTable 0x9D) = 5"
    by (simp_all add: lookup_9D InstructionData5_def)
  have z': "reg_cycles ?d = 0"
    by (simp add: scenario_sta_absx_cross_def flat_cpu_def)
  note T' = Tick_cycle_count [OF fetch_9D i' m' refl prod.collapse [symmetric] refl refl]
  from T' [THEN conjunct2, THEN conjunct2, THEN conjunct2, THEN conjunct2, THEN conjunct2,
          THEN conjunct1]
  have sta: "reg_cycles (Tick flat_bus ?d) = 5"
    by (simp add: e' z')
  from i m e z lda i' m' e' z' sta show ?thesis by (simp add: fetch_BD fetch_9D)
qed

text \<open>
  Claim C7. If the entry of the fetched opcode has a null instruction handler or a null
  addressing-mode handler, Tick returns the state it started from with three changes
  only: PC is advanced by 1, the bus is in the state the single fetch read left it in
  (no write and no further read happens), and the diagnostic for the opcode is appended
  to the error stream. A, X, Y, S, P and the cycle counter are unchanged, no handler
  runs, and the diagnostic determines the opcode. Tick is a total function: there is no
  input on which it fails.
\<close>

theorem Tick_unimplemented_opcode:
  assumes "bus_Read B (bus c) (reg_pc c) = (opcode, b')"
    and "instructionMethod (opcodeTable opcode) = None
         \<or> addressingModeMethod (opcodeTable opcode) = None"
  shows "Tick B c = c\<lparr>reg_pc := reg_pc c + 1, bus := b',
                       cerr := cerr c @ bad_opcode_message opcode\<rparr>
       \<and> reg_pc (Tick B c) = reg_pc c + 1
       \<and> bus (Tick B c) = b'
       \<and> cerr (Tick B c) = cerr c @ ''Bad opcode: '' @ hex opcode @ [CHR 0x0A]
       \<and> reg_cycles (Tick B c) = reg_cycles c
       \<and> reg_a (Tick B c) = reg_a c \<and> reg_x (Tick B c) = reg_x c
       \<and> reg_y (Tick B c) = reg_y c \<and> reg_s (Tick B c) = reg_s c
       \<and> reg_p (Tick B c) = reg_p c
       \<and> currentPageCrossPenalty (Tick B c) = currentPageCrossPenalty c
       \<and> (\<forall>other. bad_opcode_message other = bad_opcode_message opcode \<longrightarrow> other = opcode)"
  using Tick_unimplemented_state [OF assms]
  by (auto simp add: bad_opcode_message_def dest: hex_inj)

text \<open>Opcode \<open>0x02\<close> on the flat bus: the message reads \<open>Bad opcode: 2\<close>, PC moves
  from \<open>0x8000\<close> to \<open>0x8001\<close>, memory and registers stay as they were.\<close>

theorem Tick_unimplemented_opcode_witness:
  "bus_Read flat_bus (bus scenario_bad_opcode) (reg_pc scenario_bad_opcode)
      = (0x02, bus scenario_bad_opcode)
   \<and> instructionMethod (opcodeTable 0x02) = None
   \<and> Tick flat_bus scenario_bad_opcode
      = scenario_bad_opcode\<lparr>reg_pc := 0x8001, cerr := ''Bad opcode: 2'' @ [CHR 0x0A]\<rparr>"
proof -
  have r: "bus_Read flat_bus (bus scenario_bad_opcode) (reg_pc scenario_bad_opcode)
      = (0x02, bus scenario_bad_opcode)"
    by (simp add: scenario_bad_opcode_def flat_cpu_def ram_of_def)
  have "0x02 \<notin> set assigned_opcodes"
    by (simp add: assigned_opcodes_def opcode_assignments_def)
  then have n: "instructionMethod (opcodeTable 0x02) = None"
    by (simp add: opcodeTable_unassigned null_entry_def)
  from Tick_unimplemented_opcode [OF r disjI1 [OF n], THEN conjunct1]
  have "Tick flat_bus scenario_bad_opcode
      = scenario_bad_opcode\<lparr>reg_pc := 0x8001, cerr := ''Bad opcode: 2'' @ [CHR 0x0A]\<rparr>"
    by (simp add: scenario_bad_opcode_def flat_cpu_def bad_opcode_message_def hex_def
          hex_digit_def)
  with r n show ?thesis by simp
qed

section \<open>Arithmetic\<close>

text \<open>
  Claim C2. Let \<open>v\<close> be the byte the bus returns for the resolved address, \<open>carry_in\<close> be
  1 if the Carry flag is set on entry and 0 otherwise, and \<open>full_sum = A + v + carry_in\<close>
  as a natural number. After ADC the accumulator is \<open>full_sum mod 256\<close>; Carry is set iff
  \<open>full_sum > 0xFF\<close>; Zero iff the new accumulator is 0; Overflow iff bit 7 of the old
  accumulator equals bit 7 of \<open>v\<close> and bit 7 of the new accumulator differs from bit 7
  of the old one; Negative iff bit 7 of the new accumulator is 1. The Decimal flag has
  no influence: ADC commutes with setting and with clearing it, so the results from a
  state with Decimal set and from the same state with Decimal clear agree in everything
  but the Decimal bit itself.
\<close>

theorem ADC_result:
  assumes "bus_Read B (bus c) address = (v, b')"
    and "carry_in = (if IsFlagSet Status_Carry c then 1 else 0)"
    and "full_sum = unat (reg_a c) + unat v + carry_in"
    and "c' = ADC B address c"
  shows "unat (reg_a c') = full_sum mod 256
       \<and> (IsFlagSet Status_Carry c' \<longleftrightarrow> full_sum > 0xFF)
       \<and> (IsFlagSet Status_Zero c' \<longleftrightarrow> reg_a c' = 0)
       \<and> (IsFlagSet Status_Overflow c' \<longleftrightarrow>
            bit (reg_a c) 7 = bit v 7 \<and> bit (reg_a c') 7 \<noteq> bit (reg_a c) 7)
       \<and> (IsFlagSet Status_Negative c' \<longleftrightarrow> bit (reg_a c') 7)
       \<and> ADC B address (SetFlags Status_Decimal c) = SetFlags Status_Decimal c'
       \<and> ADC B address (ClearFlags Status_Decimal c) = ClearFlags Status_Decimal c'"
proof -
  let ?k = "if bit (reg_p c) 0 then 1 else 0 :: u8"
  let ?sum = "ucast (reg_a c) + ucast v + ucast ?k :: u16"
  have k: "unat ?k = carry_in" using assms(2) by (simp add: IsFlagSet_flags)
  have s: "unat ?sum = full_sum" using assms(3) k by (simp only: unat_sum16)
  have a: "reg_a c' = ucast ?sum"
    using ADC_eq [OF assms(1)] assms(4) by (simp add: Let_def)
  have 1: "unat (reg_a c') = full_sum mod 256"
    unfolding a by (simp only: unat_low_byte s)
  have 2: "IsFlagSet Status_Carry c' \<longleftrightarrow> full_sum > 0xFF"
    using ADC_eq [OF assms(1)] assms(4) s
    by (simp add: Let_def IsFlagSet_flags bit_assign_bit word_less_nat_alt)
  have 3: "IsFlagSet Status_Zero c' \<longleftrightarrow> reg_a c' = 0"
    using ADC_eq [OF assms(1)] assms(4)
    by (simp add: Let_def IsFlagSet_flags bit_assign_bit)
  have 4: "IsFlagSet Status_Overflow c' \<longleftrightarrow>
            bit (reg_a c) 7 = bit v 7 \<and> bit (reg_a c') 7 \<noteq> bit (reg_a c) 7"
    using ADC_eq [OF assms(1)] assms(4)
    by (auto simp add: Let_def IsFlagSet_flags bit_assign_bit)
  have 5: "IsFlagSet Status_Negative c' \<longleftrightarrow> bit (reg_a c') 7"
    using ADC_eq [OF assms(1)] assms(4)
    by (simp add: Let_def IsFlagSet_flags bit_assign_bit)
  from 1 2 3 4 5 show ?thesis
    by (simp only: assms(4) ADC_Decimal_set ADC_Decimal_clear simp_thms)
qed

text \<open>The overflow scenario: \<open>0x7F + 0x01\<close> gives \<open>0x80\<close> with Overflow and Negative set,
  Carry and Zero clear.\<close>

theorem ADC_result_witness:
  "bus_Read flat_bus (bus scenario_adc_overflow) 0x8001 = (0x01, bus scenario_adc_overflow)
   \<and> reg_a scenario_adc_overflow = 0x7F
   \<and> \<not> IsFlagSet Status_Carry scenario_adc_overflow
   \<and> reg_a (ADC flat_bus 0x8001 scenario_adc_overflow) = 0x80
   \<and> \<not> IsFlagSet Status_Carry (ADC flat_bus 0x8001 scenario_adc_overflow)
   \<and> \<not> IsFlagSet Status_Zero (ADC flat_bus 0x8001 scenario_adc_overflow)
   \<and> IsFlagSet Status_Overflow (ADC flat_bus 0x8001 scenario_adc_overflow)
   \<and> IsFlagSet Status_Negative (ADC flat_bus 0x8001 scenario_adc_overflow)"
proof -
  let ?c = scenario_adc_overflow
  have r: "bus_Read flat_bus (bus ?c) 0x8001 = (0x01, bus ?c)"
    and a: "reg_a ?c = 0x7F"
    and k: "\<not> IsFlagSet Status_Carry ?c"
    by (simp_all add: scenario_adc_overflow_def flat_cpu_def ram_of_def IsFlagSet_def Status_Carry_def)
  have a': "reg_a (ADC flat_bus 0x8001 ?c) = 0x80"
    using ADC_eq [OF r] by (simp add: Let_def scenario_adc_overflow_def flat_cpu_def ram_of_def)
  from ADC_result [OF r refl refl refl] a k a' r show ?thesis
    by simp
qed

text \<open>
  Claim C3. Start from a state with the Carry flag set. Running SBC when the bus returns
  \<open>v\<close> for the address, and running ADC from the same registers when the bus returns
  the bitwise complement of \<open>v\<close>, give the same accumulator and the same Negative, Zero,
  Carry and Overflow flags, indeed the same status register.
\<close>

theorem SBC_as_ADC_of_complement:
  assumes "bus_Read B (bus c) address = (v, b1)"
    and "bus_Read B m2 address = (NOT v, b2)"
    and "IsFlagSet Status_Carry c"
    and "s = SBC B address c"
    and "t = ADC B address (c\<lparr>bus := m2\<rparr>)"
  shows "reg_a s = reg_a t
       \<and> IsFlagSet Status_Negative s = IsFlagSet Status_Negative t
       \<and> IsFlagSet Status_Zero s = IsFlagSet Status_Zero t
       \<and> IsFlagSet Status_Carry s = IsFlagSet Status_Carry t
       \<and> IsFlagSet Status_Overflow s = IsFlagSet Status_Overflow t
       \<and> reg_p s = reg_p t"
proof -
  have c0: "bit (reg_p c) 0" using assms(3) by (simp add: IsFlagSet_flags)
  have r2: "bus_Read B (bus (c\<lparr>bus := m2\<rparr>)) address = (NOT v, b2)" using assms(2) by simp
  note S = SBC_eq [OF assms(1)] and A = ADC_eq [OF r2]
  have a: "reg_a s = reg_a t"
    unfolding assms(4,5) S A using c0 sbc_adc_byte [of "reg_a c" v] by (simp add: Let_def)
  have p: "reg_p s = reg_p t"
    unfolding assms(4,5) S A using c0 sbc_adc_byte [of "reg_a c" v] sbc_adc_carry [of "reg_a c" v]
    by (simp add: Let_def bit_not_iff)
  from a p show ?thesis by (simp add: IsFlagSet_def)
qed

text \<open>The borrow scenario: \<open>0x01 - 0x02\<close> with Carry set, and \<open>0x01 + 0xFD + 1\<close>, both
  give \<open>A = 0xFF\<close> and \<open>P = 0xA0\<close> (Negative set, Carry, Zero and Overflow clear).\<close>

theorem SBC_as_ADC_of_complement_witness:
  "bus_Read flat_bus (bus scenario_sbc_borrow) 0x8001 = (0x02, bus scenario_sbc_borrow)
   \<and> bus_Read flat_bus ((bus scenario_sbc_borrow)(0x8001 := 0xFD)) 0x8001
       = (NOT 0x02, (bus scenario_sbc_borrow)(0x8001 := 0xFD))
   \<and> IsFlagSet Status_Carry scenario_sbc_borrow
   \<and> reg_a (SBC flat_bus 0x8001 scenario_sbc_borrow) = 0xFF
   \<and> reg_a (ADC flat_bus 0x8001
               (scenario_sbc_borrow\<lparr>bus := (bus scenario_sbc_borrow)(0x8001 := 0xFD)\<rparr>)) = 0xFF
   \<and> reg_p (SBC flat_bus 0x8001 scenario_sbc_borrow) = 0xA0
   \<and> reg_p (ADC flat_bus 0x8001
               (scenario_sbc_borrow\<lparr>bus := (bus scenario_sbc_borrow)(0x8001 := 0xFD)\<rparr>)) = 0xA0"
proof -
  let ?c = scenario_sbc_borrow
  let ?m = "(bus scenario_sbc_borrow)(0x8001 := 0xFD)"
  have r1: "bus_Read flat_bus (bus ?c) 0x8001 = (0x02, bus ?c)"
    and r2: "bus_Read flat_bus ?m 0x8001 = (NOT 0x02, ?m)"
    and k: "IsFlagSet Status_Carry ?c"
    by (simp_all add: scenario_sbc_borrow_def flat_cpu_def ram_of_def IsFlagSet_def Status_Carry_def)
  have r2': "bus_Read flat_bus (bus (?c\<lparr>bus := ?m\<rparr>)) 0x8001 = (NOT 0x02, ?m)"
    using r2 by simp
  have t: "reg_a (ADC flat_bus 0x8001 (?c\<lparr>bus := ?m\<rparr>)) = 0xFF
         \<and> reg_p (ADC flat_bus 0x8001 (?c\<lparr>bus := ?m\<rparr>)) = 0xA0"
    using ADC_eq [OF r2'] by (simp add: Let_def scenario_sbc_borrow_def flat_cpu_def ram_of_def spec_assign_bit_def)
  from SBC_as_ADC_of_complement [OF r1 r2 k refl refl] t r1 r2 k show ?thesis
    by simp
qed

section \<open>Addressing modes\<close>

text \<open>
  Claim C4. IND reads the two pointer bytes at PC and PC + 1, then the low byte of the
  target from the pointer address. If the low byte of the pointer is \<open>0xFF\<close>, the high
  byte of the target is read from \<open>pointer & 0xFF00\<close>, the start of the same page, which
  is a different address from \<open>pointer + 1\<close>; otherwise it is read from \<open>pointer + 1\<close>. PC
  ends two bytes further.
\<close>

theorem IND_reads:
  assumes "bus_Read B (bus c) (reg_pc c) = (ptr_low, b1)"
    and "bus_Read B b1 (reg_pc c + 1) = (ptr_high, b2)"
    and "ptr = push_bit 8 (ucast ptr_high) OR ucast ptr_low"
    and "bus_Read B b2 ptr = (address_low, b3)"
  shows "(ptr_low = 0xFF \<longrightarrow>
            IND B c = (push_bit 8 (ucast (fst (bus_Read B b3 (ptr AND 0xFF00)))) OR ucast address_low,
                       c\<lparr>reg_pc := reg_pc c + 2, bus := snd (bus_Read B b3 (ptr AND 0xFF00))\<rparr>)
            \<and> ptr AND 0xFF00 = push_bit 8 (ucast ptr_high)
            \<and> ptr AND 0xFF00 \<noteq> ptr + 1)
       \<and> (ptr_low \<noteq> 0xFF \<longrightarrow>
            IND B c = (push_bit 8 (ucast (fst (bus_Read B b3 (ptr + 1)))) OR ucast address_low,
                       c\<lparr>reg_pc := reg_pc c + 2, bus := snd (bus_Read B b3 (ptr + 1))\<rparr>))"
proof -
  have pg: "ptr AND 0xFF00 = push_bit 8 (ucast ptr_high)"
    unfolding assms(3) by (rule page_of_word)
  have ne: "ptr_low = 0xFF \<Longrightarrow> ptr AND 0xFF00 \<noteq> ptr + 1"
  proof
    assume l: "ptr_low = 0xFF" and e: "ptr AND 0xFF00 = ptr + 1"
    have "push_bit 8 (ucast ptr_high :: u16) AND ucast ptr_low = 0"
      by (rule bit_eqI) (auto simp add: bit_simps dest: bit_imp_le_length)
    then have "ptr = push_bit 8 (ucast ptr_high) + ucast ptr_low"
      unfolding assms(3) by (rule disjunctive_add_eq_or [symmetric])
    then have "ptr + 1 = push_bit 8 (ucast ptr_high) + 0x100" using l by simp
    with e pg show False by simp
  qed
  have ul: "(ucast ptr_low :: u16) = 0xFF \<longleftrightarrow> ptr_low = 0xFF"
    by (simp add: word_unat_eq_iff unat_ucast_u8_u16)
  show ?thesis
  proof (cases "ptr_low = 0xFF")
    case True
    with assms ul pg ne show ?thesis by (simp add: IND_def Read_eq split_def Let_def)
  next
    case False
    with assms ul show ?thesis by (simp add: IND_def Read_eq split_def Let_def)
  qed
qed

text \<open>With the pointer \<open>0x02FF\<close> the target is \<open>0x1234\<close>: the low byte \<open>0x34\<close> comes from
  \<open>0x02FF\<close> and the high byte \<open>0x12\<close> from \<open>0x0200\<close>, not the \<open>0x56\<close> at \<open>0x0300\<close>.\<close>

theorem IND_reads_witness:
  "reg_pc scenario_ind_wrap = 0x8001
   \<and> bus scenario_ind_wrap 0x8001 = 0xFF \<and> bus scenario_ind_wrap 0x8002 = 0x02
   \<and> bus scenario_ind_wrap 0x02FF = 0x34
   \<and> bus scenario_ind_wrap 0x0200 = 0x12 \<and> bus scenario_ind_wrap 0x0300 = 0x56
   \<and> IND flat_bus scenario_ind_wrap = (0x1234, scenario_ind_wrap\<lparr>reg_pc := 0x8003\<rparr>)"
proof -
  let ?c = scenario_ind_wrap
  have 1: "bus_Read flat_bus (bus ?c) (reg_pc ?c) = (0xFF, bus ?c)"
    and 2: "bus_Read flat_bus (bus ?c) (reg_pc ?c + 1) = (0x02, bus ?c)"
    and 3: "(0x02FF::u16) = push_bit 8 (ucast (0x02::u8)) OR ucast (0xFF::u8)"
    and 4: "bus_Read flat_bus (bus ?c) 0x02FF = (0x34, bus ?c)"
    by (simp_all add: scenario_ind_wrap_def flat_cpu_def ram_of_def)
  from IND_reads [OF 1 2 3 4, THEN conjunct1]
  have "IND flat_bus ?c = (0x1234, ?c\<lparr>reg_pc := 0x8003\<rparr>)"
    by (simp add: scenario_ind_wrap_def flat_cpu_def ram_of_def)
  then show ?thesis by (simp add: scenario_ind_wrap_def flat_cpu_def ram_of_def)
qed

text \<open>
  Claim C5, as amended. With PC = \<open>p\<close> on entry, REL reads one offset byte at \<open>p\<close>, takes
  it as a signed two's-complement number between -128 and 127, leaves PC = \<open>p + 1\<close>, and
  returns \<open>(p + signed(byte)) mod 2^16\<close>: the offset is added to the PC value that points
  at the offset byte, and PC is advanced only after the sum.
\<close>

theorem REL_result:
  assumes "bus_Read B (bus c) (reg_pc c) = (v, b')"
  shows "REL B c = (reg_pc c + scast v, c\<lparr>bus := b', reg_pc := reg_pc c + 1\<rparr>)
       \<and> - 128 \<le> sint v \<and> sint v \<le> 127
       \<and> uint (fst (REL B c)) = (uint (reg_pc c) + sint v) mod 2 ^ 16
       \<and> reg_pc (snd (REL B c)) = reg_pc c + 1"
proof -
  have e: "REL B c = (reg_pc c + scast v, c\<lparr>bus := b', reg_pc := reg_pc c + 1\<rparr>)"
    using assms by (simp add: REL_def Read_eq Let_def)
  have r: "- 128 \<le> sint v \<and> sint v \<le> 127"
    using sint_ge [of v] sint_lt [of v] by simp
  have "uint (scast v :: u16) = sint v mod 2 ^ 16"
    by (simp only: scast_eq uint_word_of_int) simp
  then have "uint (reg_pc c + scast v) = (uint (reg_pc c) + sint v mod 2 ^ 16) mod 2 ^ 16"
    by (simp add: uint_word_ariths)
  then have u: "uint (reg_pc c + scast v) = (uint (reg_pc c) + sint v) mod 2 ^ 16"
    by (simp only: mod_add_right_eq)
  from e r u show ?thesis by simp
qed

text \<open>Offset \<open>+5\<close> at \<open>p = 0x8001\<close>: the address returned is \<open>0x8006\<close> and PC ends at
  \<open>0x8002\<close>.\<close>

theorem REL_result_witness:
  "bus_Read flat_bus (bus scenario_rel_forward) (reg_pc scenario_rel_forward) = (0x05, bus scenario_rel_forward)
   \<and> REL flat_bus scenario_rel_forward = (0x8006, scenario_rel_forward\<lparr>reg_pc := 0x8002\<rparr>)"
proof -
  have 1: "bus_Read flat_bus (bus scenario_rel_forward) (reg_pc scenario_rel_forward)
     = (0x05, bus scenario_rel_forward)"
    by (simp add: scenario_rel_forward_def flat_cpu_def ram_of_def)
  from REL_result [OF 1, THEN conjunct1] 1 show ?thesis by (simp add: scenario_rel_forward_def flat_cpu_def ram_of_def)
qed

text \<open>The claim as first stated asks for \<open>p + 1 + signed(byte)\<close>, which would be \<open>0x8007\<close>
  here.\<close>

theorem REL_claimed_address_counterexample:
  "reg_pc scenario_rel_forward = 0x8001
   \<and> bus scenario_rel_forward 0x8001 = 0x05
   \<and> fst (REL flat_bus scenario_rel_forward) = 0x8006
   \<and> fst (REL flat_bus scenario_rel_forward) \<noteq> 0x8001 + 1 + scast (0x05 :: u8)"
  by (simp add: REL_def Read_eq Let_def scenario_rel_forward_def flat_cpu_def ram_of_def)

end
